theory Spec2Isabelle
  imports Complex_Main "HOL-Library.Word"
begin

unbundle bit_operations_syntax

section \<open>The explosion-generator bytecode: compiler, interpreter and program cache\<close>

text \<open>
  A shallow embedding of \<^verbatim>\<open>rts/Sim/Projectiles/ExplosionGenerator.cpp\<close>:
  \<^verbatim>\<open>CCustomExplosionGenerator::ParseExplosionCode\<close> (the compiler),
  \<^verbatim>\<open>ExecuteExplosionCode\<close> (the interpreter), and \<^verbatim>\<open>Load\<close>, \<^verbatim>\<open>Reload\<close>,
  \<^verbatim>\<open>Explosion\<close> (the cache of compiled definitions).

  Conventions.
  \<^item> The opcode stream is a list of bytes, as the \<^verbatim>\<open>std::string code\<close> of the source;
    operands are stored little-endian in their C width.
  \<^item> \<^verbatim>\<open>unsigned int\<close> and \<^verbatim>\<open>int\<close> are 32-bit words, \<^verbatim>\<open>boost::uint16_t\<close> is a
    16-bit word, a pointer and a \<^verbatim>\<open>string::size_type\<close> are 64-bit words (LP64).
  \<^item> What the source obtains from other translation units (libc's \<^verbatim>\<open>strtod\<close>, the
    texture atlases, the Lua tables, the random source, the math library) is a parameter,
    collected in the records \<open>externs\<close>, \<open>machine\<close>, \<open>handler\<close> and \<open>world\<close>.
  \<^item> A C++ exception is the \<open>Inl\<close> of a sum; a loop of the source that need not return is
    a partial function into \<open>option\<close>, \<open>None\<close> meaning that it never returns.
\<close>

subsection \<open>Bytes and little-endian operands\<close>

type_synonym byte = "8 word"

definition le16 :: "16 word \<Rightarrow> byte list" where
  "le16 w = [ucast w, ucast (drop_bit 8 w)]"

definition le32 :: "32 word \<Rightarrow> byte list" where
  "le32 w = [ucast w, ucast (drop_bit 8 w), ucast (drop_bit 16 w), ucast (drop_bit 24 w)]"

definition le64 :: "64 word \<Rightarrow> byte list" where
  "le64 w = [ucast w, ucast (drop_bit 8 w), ucast (drop_bit 16 w), ucast (drop_bit 24 w),
             ucast (drop_bit 32 w), ucast (drop_bit 40 w), ucast (drop_bit 48 w),
             ucast (drop_bit 56 w)]"

text \<open>\<^verbatim>\<open>*(T*) code\<close>: the value of the first \<open>sizeof(T)\<close> bytes; reading past the end of the
  stream is \<open>None\<close>.\<close>

fun rd16 :: "byte list \<Rightarrow> 16 word option" where
  "rd16 (b0 # b1 # _) = Some (ucast b0 OR push_bit 8 (ucast b1))"
| "rd16 _ = None"

fun rd32 :: "byte list \<Rightarrow> 32 word option" where
  "rd32 (b0 # b1 # b2 # b3 # _) =
     Some (ucast b0 OR push_bit 8 (ucast b1) OR push_bit 16 (ucast b2) OR push_bit 24 (ucast b3))"
| "rd32 _ = None"

fun rd64 :: "byte list \<Rightarrow> 64 word option" where
  "rd64 (b0 # b1 # b2 # b3 # b4 # b5 # b6 # b7 # _) =
     Some (ucast b0 OR push_bit 8 (ucast b1) OR push_bit 16 (ucast b2) OR push_bit 24 (ucast b3)
           OR push_bit 32 (ucast b4) OR push_bit 40 (ucast b5) OR push_bit 48 (ucast b6)
           OR push_bit 56 (ucast b7))"
| "rd64 _ = None"

subsection \<open>Opcode tags\<close>

text \<open>
  Modelled from the spec: the \<^verbatim>\<open>OP_*\<close> constants are declared in
  \<^verbatim>\<open>ExplosionGenerator.h\<close>, which is not among the sources. The spec (section 3) says
  that every instruction starts with a one-byte opcode tag, and section 4.1 lists the
  instructions. The tags are given pairwise different values here, and nothing proved
  below uses more than that.
\<close>

definition OP_END :: byte where [simp]: "OP_END = 0"
definition OP_STOREI :: byte where [simp]: "OP_STOREI = 1"
definition OP_STOREF :: byte where [simp]: "OP_STOREF = 2"
definition OP_STOREC :: byte where [simp]: "OP_STOREC = 3"
definition OP_ADD :: byte where [simp]: "OP_ADD = 4"
definition OP_RAND :: byte where [simp]: "OP_RAND = 5"
definition OP_DAMAGE :: byte where [simp]: "OP_DAMAGE = 6"
definition OP_INDEX :: byte where [simp]: "OP_INDEX = 7"
definition OP_LOADP :: byte where [simp]: "OP_LOADP = 8"
definition OP_STOREP :: byte where [simp]: "OP_STOREP = 9"
definition OP_DIR :: byte where [simp]: "OP_DIR = 10"
definition OP_SAWTOOTH :: byte where [simp]: "OP_SAWTOOTH = 11"
definition OP_DISCRETE :: byte where [simp]: "OP_DISCRETE = 12"
definition OP_SINE :: byte where [simp]: "OP_SINE = 13"
definition OP_YANK :: byte where [simp]: "OP_YANK = 14"
definition OP_MULTIPLY :: byte where [simp]: "OP_MULTIPLY = 15"
definition OP_ADDBUFF :: byte where [simp]: "OP_ADDBUFF = 16"
definition OP_POW :: byte where [simp]: "OP_POW = 17"
definition OP_POWBUFF :: byte where [simp]: "OP_POWBUFF = 18"

subsection \<open>Single-precision values\<close>

text \<open>
  A \<^verbatim>\<open>float\<close> is a finite rational, an infinity or a NaN. The special values follow
  IEEE 754 (\<open>x / 0\<close> is an infinity or, for \<open>0 / 0\<close>, a NaN; \<open>0 * inf\<close> and \<open>inf - inf\<close> are
  NaN; a NaN operand gives NaN). A finite result is the exact one passed through the
  rounding function \<open>rnd\<close> of the machine, which may also overflow to an infinity. The two
  zeros are identified (and count as positive), so the sign of \<open>x / -0\<close> is not tracked.
\<close>

datatype float = Finite rat | PInf | NInf | NaN

type_synonym float3 = "float \<times> float \<times> float"

definition float_of_bits :: "32 word \<Rightarrow> float" where
  "float_of_bits w =
    (let s = bit w 31;
         e = unat (drop_bit 23 w AND 0xFF);
         m = unat (w AND 0x7FFFFF)
     in if e = 255 then (if m = 0 then (if s then NInf else PInf) else NaN)
        else let mag = (if e = 0 then of_nat m / 2 ^ 149
                        else if 150 \<le> e then of_nat (2 ^ 23 + m) * 2 ^ (e - 150)
                        else of_nat (2 ^ 23 + m) / 2 ^ (150 - e))
             in Finite (if s then - mag else mag))"

fun fneg :: "float \<Rightarrow> float" where
  "fneg (Finite a) = Finite (- a)"
| "fneg PInf = NInf"
| "fneg NInf = PInf"
| "fneg NaN = NaN"

fun fadd :: "(rat \<Rightarrow> float) \<Rightarrow> float \<Rightarrow> float \<Rightarrow> float" where
  "fadd rnd NaN _ = NaN"
| "fadd rnd _ NaN = NaN"
| "fadd rnd PInf NInf = NaN"
| "fadd rnd NInf PInf = NaN"
| "fadd rnd PInf _ = PInf"
| "fadd rnd NInf _ = NInf"
| "fadd rnd _ PInf = PInf"
| "fadd rnd _ NInf = NInf"
| "fadd rnd (Finite a) (Finite b) = rnd (a + b)"

definition fsub :: "(rat \<Rightarrow> float) \<Rightarrow> float \<Rightarrow> float \<Rightarrow> float" where
  "fsub rnd a b = fadd rnd a (fneg b)"

text \<open>The sign of a value that is not a NaN: \<open>True\<close> for negative.\<close>

fun fsign :: "float \<Rightarrow> bool" where
  "fsign (Finite a) = (a < 0)"
| "fsign PInf = False"
| "fsign NInf = True"
| "fsign NaN = False"

definition inf_of_sign :: "bool \<Rightarrow> float" where
  "inf_of_sign neg = (if neg then NInf else PInf)"

fun fmul :: "(rat \<Rightarrow> float) \<Rightarrow> float \<Rightarrow> float \<Rightarrow> float" where
  "fmul rnd NaN _ = NaN"
| "fmul rnd _ NaN = NaN"
| "fmul rnd (Finite a) (Finite b) = rnd (a * b)"
| "fmul rnd a b =
     (if a = Finite 0 \<or> b = Finite 0 then NaN else inf_of_sign (fsign a \<noteq> fsign b))"

fun fdiv :: "(rat \<Rightarrow> float) \<Rightarrow> float \<Rightarrow> float \<Rightarrow> float" where
  "fdiv rnd NaN _ = NaN"
| "fdiv rnd _ NaN = NaN"
| "fdiv rnd (Finite a) (Finite b) =
     (if b = 0 then (if a = 0 then NaN else inf_of_sign (a < 0)) else rnd (a / b))"
| "fdiv rnd (Finite a) b = Finite 0"
| "fdiv rnd a (Finite b) = inf_of_sign (fsign a \<noteq> (b < 0))"
| "fdiv rnd a b = NaN"

text \<open>\<^verbatim>\<open>math::floor\<close>: the floor of a finite \<^verbatim>\<open>float\<close> is representable, so no rounding.\<close>

fun ffloor :: "float \<Rightarrow> float" where
  "ffloor (Finite a) = Finite (of_int \<lfloor>a\<rfloor>)"
| "ffloor f = f"

text \<open>Comparisons: every comparison with a NaN is false.\<close>

fun fless :: "float \<Rightarrow> float \<Rightarrow> bool" where
  "fless NaN _ = False"
| "fless _ NaN = False"
| "fless (Finite a) (Finite b) = (a < b)"
| "fless NInf b = (b \<noteq> NInf)"
| "fless a PInf = (a \<noteq> PInf)"
| "fless _ _ = False"

definition fle :: "float \<Rightarrow> float \<Rightarrow> bool" where
  "fle a b = (a \<noteq> NaN \<and> b \<noteq> NaN \<and> (a = b \<or> fless a b))"

text \<open>
  \<^verbatim>\<open>(int) val\<close>: truncation towards zero. For a NaN, an infinity or a value outside the
  range of \<^verbatim>\<open>int\<close> the C++ result is undefined; the model takes what the x86 conversion
  instruction returns, \<open>0x80000000\<close>.
\<close>

definition int_of_float :: "float \<Rightarrow> 32 word" where
  "int_of_float f =
     (case f of
        Finite a \<Rightarrow>
          (let t = (if a < 0 then - \<lfloor>- a\<rfloor> else \<lfloor>a\<rfloor>)
           in if - (2 ^ 31) \<le> t \<and> t < 2 ^ 31 then of_int t else 0x80000000)
      | _ \<Rightarrow> 0x80000000)"

text \<open>
  Modelled from the spec: \<^verbatim>\<open>SafeDivide\<close> is defined in a header that is not among the
  sources. Spec, section 4.1: "division-by-zero-safe (treat 0/0 as 0)"; section 8: "treat
  as 0, not NaN/Inf".
\<close>

definition SafeDivide :: "(rat \<Rightarrow> float) \<Rightarrow> float \<Rightarrow> float \<Rightarrow> float" where
  "SafeDivide rnd a b = (if b = Finite 0 then Finite 0 else fdiv rnd a b)"

subsection \<open>libc: character classes and \<^verbatim>\<open>strtol\<close>\<close>

definition isdigit :: "char \<Rightarrow> bool" where
  "isdigit c = (48 \<le> (of_char c :: nat) \<and> (of_char c :: nat) \<le> 57)"

definition isspace :: "char \<Rightarrow> bool" where
  "isspace c = ((of_char c :: nat) = 32 \<or> (9 \<le> (of_char c :: nat) \<and> (of_char c :: nat) \<le> 13))"

text \<open>The value of a run of decimal digits, and how many characters the run has.\<close>

fun digits :: "int \<Rightarrow> string \<Rightarrow> int \<times> nat" where
  "digits acc [] = (acc, 0)"
| "digits acc (c # cs) =
     (if isdigit c
      then (case digits (acc * 10 + (int (of_char c) - 48)) cs of (v, n) \<Rightarrow> (v, Suc n))
      else (acc, 0))"

text \<open>
  \<^verbatim>\<open>strtol(s, &endp, 10)\<close> with a 64-bit \<^verbatim>\<open>long\<close>: white space, an optional sign, decimal
  digits; the value saturates at \<^verbatim>\<open>LONG_MIN\<close> and \<^verbatim>\<open>LONG_MAX\<close>. The result is the value
  and \<^verbatim>\<open>endp - s\<close>. With no digit nothing is consumed and the value is 0.
\<close>

definition strtol :: "string \<Rightarrow> int \<times> nat" where
  "strtol s =
     (let ws = takeWhile isspace s;
          r = dropWhile isspace s;
          neg = (r \<noteq> [] \<and> hd r = CHR ''-'');
          sg = (if r \<noteq> [] \<and> (hd r = CHR ''-'' \<or> hd r = CHR ''+'') then 1 else 0)
      in case digits 0 (drop sg r) of
           (v, n) \<Rightarrow>
             if n = 0 then (0, 0)
             else (max (- (2 ^ 63)) (min (2 ^ 63 - 1) (if neg then - v else v)),
                   length ws + sg + n))"

text \<open>\<^verbatim>\<open>&script.c_str()[p]\<close>: the C string that starts at index \<open>p\<close>; it ends at the first
  NUL character of the script, if there is one.\<close>

definition c_str_from :: "string \<Rightarrow> nat \<Rightarrow> string" where
  "c_str_from script p = takeWhile (\<lambda>c. (of_char c :: nat) \<noteq> 0) (drop p script)"

text \<open>\<^verbatim>\<open>std::max(0, std::min(16, (int) strtol(...)))\<close>: the register operand of
  \<^verbatim>\<open>y\<close>, \<^verbatim>\<open>x\<close>, \<^verbatim>\<open>a\<close> and \<^verbatim>\<open>q\<close>. The cast to \<^verbatim>\<open>int\<close> keeps the low 32 bits.\<close>

definition register_operand :: "int \<Rightarrow> 32 word" where
  "register_operand l = of_int (max 0 (min 16 (sint (of_int l :: 32 word))))"

subsection \<open>\<^verbatim>\<open>std::string\<close> searching\<close>

text \<open>\<^verbatim>\<open>string::size_type\<close> is an unsigned 64-bit integer; \<^verbatim>\<open>string::npos\<close> is its
  largest value.\<close>

type_synonym size_type = "64 word"

definition npos :: size_type where
  "npos = 0xFFFFFFFFFFFFFFFF"

text \<open>\<^verbatim>\<open>s.find(c, pos)\<close>: the first index \<open>\<ge> pos\<close> that holds \<open>c\<close>, or \<open>npos\<close>.\<close>

fun find_from :: "char \<Rightarrow> string \<Rightarrow> size_type \<Rightarrow> size_type" where
  "find_from c [] i = npos"
| "find_from c (x # xs) i = (if x = c then i else find_from c xs (i + 1))"

definition find_char :: "string \<Rightarrow> char \<Rightarrow> size_type \<Rightarrow> size_type" where
  "find_char s c pos = find_from c (drop (unat pos) s) pos"

text \<open>\<^verbatim>\<open>s.substr(pos, n)\<close>, for \<open>pos \<le> s.size()\<close> (the source never calls it otherwise:
  in the loops below \<open>start\<close> is 0 or an index of the script plus 1).\<close>

definition substr :: "string \<Rightarrow> size_type \<Rightarrow> size_type \<Rightarrow> string" where
  "substr s pos n = take (unat n) (drop (unat pos) s)"

text \<open>\<^verbatim>\<open>s.length()\<close>\<close>

definition str_length :: "string \<Rightarrow> size_type" where
  "str_length s = of_nat (length s)"

subsection \<open>The compiler: \<^verbatim>\<open>ParseExplosionCode\<close>\<close>

text \<open>
  What the compiler calls outside the source file: \<^verbatim>\<open>(float) strtod(s, &endp)\<close> as
  the bit pattern of the \<^verbatim>\<open>float\<close> and the number of characters consumed, the two
  texture atlases, the colour-map cache and the generator handler, each returning an
  address. \<^verbatim>\<open>LoadGenerator\<close> may throw.
\<close>

datatype perror = content_error string

record externs =
  strtod :: "string \<Rightarrow> 32 word \<times> nat"
  GetTexture :: "string \<Rightarrow> 64 word"
  GetGroundFXTexture :: "string \<Rightarrow> 64 word"
  LoadFromDefString :: "string \<Rightarrow> 64 word"
  LoadGenerator :: "string \<Rightarrow> perror + 64 word"

text \<open>The \<^verbatim>\<open>if\<close> chain over the mnemonic: the opcode, \<^verbatim>\<open>useInt\<close>, and whether \<open>p\<close> steps
  back onto the character (a bare number). \<open>None\<close> is the unknown op-code warning.\<close>

definition mnemonic :: "char \<Rightarrow> (byte \<times> bool \<times> bool) option" where
  "mnemonic c =
    (if c = CHR ''i'' then Some (OP_INDEX, False, False)
     else if c = CHR ''r'' then Some (OP_RAND, False, False)
     else if c = CHR ''d'' then Some (OP_DAMAGE, False, False)
     else if c = CHR ''m'' then Some (OP_SAWTOOTH, False, False)
     else if c = CHR ''k'' then Some (OP_DISCRETE, False, False)
     else if c = CHR ''s'' then Some (OP_SINE, False, False)
     else if c = CHR ''p'' then Some (OP_POW, False, False)
     else if c = CHR ''y'' then Some (OP_YANK, True, False)
     else if c = CHR ''x'' then Some (OP_MULTIPLY, True, False)
     else if c = CHR ''a'' then Some (OP_ADDBUFF, True, False)
     else if c = CHR ''q'' then Some (OP_POWBUFF, True, False)
     else if isdigit c \<or> c = CHR ''.'' \<or> c = CHR ''-'' then Some (OP_ADD, False, True)
     else None)"

text \<open>
  The \<^verbatim>\<open>while (p < script.length())\<close> loop. It need not return: a \<^verbatim>\<open>-\<close> or \<^verbatim>\<open>.\<close> that
  starts no number makes \<^verbatim>\<open>strtod\<close> consume nothing, and \<open>p\<close> stays where it is.
\<close>

partial_function (option) tokenize ::
    "externs \<Rightarrow> string \<Rightarrow> nat \<Rightarrow> byte list \<Rightarrow> byte list option" where
  "tokenize X script p code =
    (if p < length script then
       (let c = script ! p; p1 = p + 1 in
        if c = CHR '' '' then tokenize X script p1 code
        else case mnemonic c of
          None \<Rightarrow> tokenize X script p1 code
        | Some (opcode, useInt, back) \<Rightarrow>
            (let p2 = (if back then p1 - 1 else p1) in
             if p2 \<ge> length script then tokenize X script p2 code
             else if \<not> useInt then
               (case strtod X (c_str_from script p2) of
                  (v, n) \<Rightarrow> tokenize X script (p2 + n) (code @ [opcode] @ le32 v))
             else
               (case strtol (c_str_from script p2) of
                  (l, n) \<Rightarrow>
                    tokenize X script (p2 + n) (code @ [opcode] @ le32 (register_operand l)))))
     else Some code)"

declare tokenize.simps [code]

text \<open>The reflected types (creg): a basic type with its id, an object with the members of
  its class and of the base classes, a static array, and any other type, known by name.\<close>

datatype basic_id = crInt | crFloat | crUChar | crBool | crOther

datatype itype =
    BasicType basic_id
  | ObjectInstanceType cclass
  | StaticArrayBaseType nat "32 word" itype
  | NamedType string
and cclass =
    Class "(32 word \<times> itype) list" "cclass option"

record pstate =
  code :: "byte list"
  spawnExplGens :: "64 word list"

definition legalType :: "basic_id \<Rightarrow> bool" where
  "legalType b = (b = crInt \<or> b = crFloat \<or> b = crUChar \<or> b = crBool)"

text \<open>The \<^verbatim>\<open>switch (basicType->id)\<close> after the loop.\<close>

fun store_op :: "basic_id \<Rightarrow> byte list" where
  "store_op crInt = [OP_STOREI]"
| "store_op crBool = [OP_STOREI]"
| "store_op crFloat = [OP_STOREF]"
| "store_op crUChar = [OP_STOREC]"
| "store_op crOther = []"

text \<open>\<^verbatim>\<open>code += OP_LOADP; code.append(&p, &p + sizeof(void*)); code += OP_STOREP;
  code.append(&ofs, &ofs + 2)\<close>\<close>

definition emit_pointer :: "64 word \<Rightarrow> 32 word \<Rightarrow> byte list" where
  "emit_pointer p offset = [OP_LOADP] @ le64 p @ [OP_STOREP] @ le16 (ucast offset)"

text \<open>
  \<^verbatim>\<open>ParseExplosionCode(psi, offset, type, script, code)\<close>; \<open>psi\<close> is not used by the
  source. \<open>members_loop\<close> is the inner \<^verbatim>\<open>for\<close> over \<^verbatim>\<open>c->members\<close>, \<open>class_loop\<close> the
  outer one over the base classes, \<open>array_loop\<close> the one over the elements of a static
  array (\<open>i\<close> the index, \<open>k\<close> the number of elements left). Each returns \<open>start\<close> as well.
\<close>

function (sequential) ParseExplosionCode ::
      "externs \<Rightarrow> 32 word \<Rightarrow> itype \<Rightarrow> string \<Rightarrow> pstate \<Rightarrow> (perror + pstate) option"
  and members_loop ::
      "externs \<Rightarrow> 32 word \<Rightarrow> (32 word \<times> itype) list \<Rightarrow> string \<Rightarrow> size_type \<Rightarrow> pstate
        \<Rightarrow> (perror + size_type \<times> pstate) option"
  and class_loop ::
      "externs \<Rightarrow> 32 word \<Rightarrow> cclass option \<Rightarrow> string \<Rightarrow> size_type \<Rightarrow> pstate
        \<Rightarrow> (perror + pstate) option"
  and array_loop ::
      "externs \<Rightarrow> 32 word \<Rightarrow> 32 word \<Rightarrow> itype \<Rightarrow> nat \<Rightarrow> nat \<Rightarrow> string \<Rightarrow> size_type
        \<Rightarrow> pstate \<Rightarrow> (perror + pstate) option"
where
  "ParseExplosionCode X offset type script st =
    (let end = find_char script (CHR '';'') 0;
         vastr = substr script 0 end
     in if vastr = ''dir'' then
          Some (Inr (st\<lparr>code := code st @ [OP_DIR] @ le16 (ucast offset)\<rparr>))
        else case type of
          BasicType b \<Rightarrow>
            if \<not> legalType b then
              Some (Inl (content_error
                (''[CCEG::ParseExplosionCode] projectile type-properties other than int, float, uchar, or bool are not supported ('' @ script @ '')'')))
            else (case tokenize X script 0 (code st) of
                    None \<Rightarrow> None
                  | Some code' \<Rightarrow>
                      Some (Inr (st\<lparr>code := code' @ store_op b @ le16 (ucast offset)\<rparr>)))
        | ObjectInstanceType c \<Rightarrow> class_loop X offset (Some c) script 0 st
        | StaticArrayBaseType n elemSize elemType \<Rightarrow>
            array_loop X offset elemSize elemType 0 n script 0 st
        | NamedType name \<Rightarrow>
            if name = ''AtlasedTexture*'' then
              Some (Inr (st\<lparr>code := code st @ emit_pointer (GetTexture X vastr) offset\<rparr>))
            else if name = ''GroundFXTexture*'' then
              Some (Inr (st\<lparr>code := code st @ emit_pointer (GetGroundFXTexture X vastr) offset\<rparr>))
            else if name = ''CColorMap*'' then
              Some (Inr (st\<lparr>code := code st @ emit_pointer (LoadFromDefString X vastr) offset\<rparr>))
            else if name = ''IExplosionGenerator*'' then
              (case LoadGenerator X vastr of
                 Inl e \<Rightarrow> Some (Inl e)
               | Inr explGen \<Rightarrow>
                   Some (Inr (st\<lparr>code := code st @ emit_pointer explGen offset,
                                  spawnExplGens := spawnExplGens st @ [explGen]\<rparr>)))
            else Some (Inr st))"
| "members_loop X offset [] script start st = Some (Inr (start, st))"
| "members_loop X offset (m # ms) script start st =
    (let end = find_char script (CHR '','') (start + 1) in
     case ParseExplosionCode X (offset + fst m) (snd m)
            (substr script start (end - start)) st of
       None \<Rightarrow> None
     | Some (Inl e) \<Rightarrow> Some (Inl e)
     | Some (Inr st') \<Rightarrow>
         (let start' = end + 1 in
          if start' \<ge> str_length script then Some (Inr (start', st'))
          else members_loop X offset ms script start' st'))"
| "class_loop X offset None script start st = Some (Inr st)"
| "class_loop X offset (Some (Class members base)) script start st =
    (case members_loop X offset members script start st of
       None \<Rightarrow> None
     | Some (Inl e) \<Rightarrow> Some (Inl e)
     | Some (Inr (start', st')) \<Rightarrow>
         if start' \<ge> str_length script then Some (Inr st')
         else class_loop X offset base script start' st')"
| "array_loop X offset elemSize elemType i 0 script start st = Some (Inr st)"
| "array_loop X offset elemSize elemType i (Suc k) script start st =
    (let end = find_char script (CHR '','') (start + 1) in
     case ParseExplosionCode X (offset + elemSize * of_nat i) elemType
            (substr script start (end - start)) st of
       None \<Rightarrow> None
     | Some (Inl e) \<Rightarrow> Some (Inl e)
     | Some (Inr st') \<Rightarrow>
         (let start' = end + 1 in
          if start' \<ge> str_length script then Some (Inr st')
          else array_loop X offset elemSize elemType (Suc i) k script start' st'))"

  by pat_completeness auto

termination
  apply (relation "inv_image (less_than <*lex*> less_than)
     (\<lambda>x. case x of
        Inl (Inl (X, offset, t, script, st)) \<Rightarrow> (2 * size t, 0)
      | Inl (Inr (X, offset, ms, script, start, st)) \<Rightarrow>
          (2 * size_list (size_prod (\<lambda>_. 0) size) ms + 1, 0)
      | Inr (Inl (X, offset, c, script, start, st)) \<Rightarrow> (2 * size_option size c - 1, 0)
      | Inr (Inr (X, offset, elemSize, elemType, i, k, script, start, st)) \<Rightarrow>
          (2 * size elemType + 1, k))")
  apply auto
  done

subsection \<open>The interpreter: \<^verbatim>\<open>ExecuteExplosionCode\<close>\<close>

text \<open>
  What the interpreter takes from its surroundings: the rounding of the floating-point
  unit, \<^verbatim>\<open>math::sin\<close> and \<^verbatim>\<open>math::pow\<close>, the values that \<^verbatim>\<open>gu->RandFloat()\<close> returns
  (indexed by the number of the draw), and what the uninitialised \<^verbatim>\<open>float buffer[16]\<close>
  happens to hold.
\<close>

record machine =
  rnd :: "rat \<Rightarrow> float"
  m_sin :: "float \<Rightarrow> float"
  m_pow :: "float \<Rightarrow> float \<Rightarrow> float"
  RandFloat :: "nat \<Rightarrow> float"
  buffer0 :: "nat \<Rightarrow> float"

text \<open>A store into the instance: the byte offset and the value, one constructor for each
  width (\<^verbatim>\<open>int\<close>: 4 bytes, \<^verbatim>\<open>float\<close>: 4, \<^verbatim>\<open>unsigned char\<close>: 1, \<^verbatim>\<open>void*\<close>: 8,
  \<^verbatim>\<open>float3\<close>: 12).\<close>

datatype raw_write =
    WriteInt nat "32 word"
  | WriteFloat nat float
  | WriteUChar nat byte
  | WritePtr nat "64 word"
  | WriteFloat3 nat float3

text \<open>
  The locals of the interpreter (\<open>val\<close>, \<open>ptr\<close>, \<open>buffer\<close>), the number of random draws
  made so far, and the stores made into the instance, oldest first. \<open>after_store\<close> is an
  observation added by the model: the value of \<open>val\<close> right after each \<^verbatim>\<open>OP_STOREI\<close>,
  \<^verbatim>\<open>OP_STOREF\<close> and \<^verbatim>\<open>OP_STOREC\<close>.
\<close>

record xstate =
  val :: float
  ptr :: "64 word"
  buffer :: "nat \<Rightarrow> float"
  draws :: nat
  writes :: "raw_write list"
  after_store :: "float list"

text \<open>What ends an execution other than \<^verbatim>\<open>OP_END\<close>: a read past the end of the stream,
  an index outside \<^verbatim>\<open>buffer[16]\<close> (undefined behaviour in the source), and the
  \<^verbatim>\<open>assert(false)\<close> of the \<^verbatim>\<open>default\<close> case.\<close>

datatype fault = ReadPastEnd | BufferOverrun int | AssertFailed byte

definition float_of_int32 :: "machine \<Rightarrow> 32 word \<Rightarrow> float" where
  "float_of_int32 M i = rnd M (of_int (sint i))"

text \<open>\<^verbatim>\<open>buffer[(*(int*) code)]\<close>\<close>

definition buffer_index :: "32 word \<Rightarrow> fault + nat" where
  "buffer_index i = (if 0 \<le> sint i \<and> sint i < 16 then Inr (nat (sint i)) else Inl (BufferOverrun (sint i)))"

text \<open>Not in the source: after a store instruction has run, the value of \<open>val\<close> is
  noted in \<open>after_store\<close>.\<close>

definition observe_store :: "xstate \<Rightarrow> xstate" where
  "observe_store s = s\<lparr>after_store := after_store s @ [val s]\<rparr>"

text \<open>The \<^verbatim>\<open>for (;;) switch (*(code++))\<close> loop.\<close>

fun exec_loop ::
    "machine \<Rightarrow> byte list \<Rightarrow> float \<Rightarrow> 32 word \<Rightarrow> float3 \<Rightarrow> xstate \<Rightarrow> fault + xstate" where
  "exec_loop M [] damage spawnIndex dir s = Inl ReadPastEnd"
| "exec_loop M (op # rest) damage spawnIndex dir s =
    (if op = OP_END then Inr s
     else if op = OP_STOREI then
       (case rd16 rest of None \<Rightarrow> Inl ReadPastEnd
        | Some offset \<Rightarrow>
            exec_loop M (drop 2 rest) damage spawnIndex dir
              (observe_store
                (s\<lparr>writes := writes s @ [WriteInt (unat offset) (int_of_float (val s))], val := Finite 0\<rparr>)))
     else if op = OP_STOREF then
       (case rd16 rest of None \<Rightarrow> Inl ReadPastEnd
        | Some offset \<Rightarrow>
            exec_loop M (drop 2 rest) damage spawnIndex dir
              (observe_store
                (s\<lparr>writes := writes s @ [WriteFloat (unat offset) (val s)], val := Finite 0\<rparr>)))
     else if op = OP_STOREC then
       (case rd16 rest of None \<Rightarrow> Inl ReadPastEnd
        | Some offset \<Rightarrow>
            exec_loop M (drop 2 rest) damage spawnIndex dir
              (observe_store
                (s\<lparr>writes := writes s @ [WriteUChar (unat offset) (ucast (int_of_float (val s)))], val := Finite 0\<rparr>)))
     else if op = OP_ADD then
       (case rd32 rest of None \<Rightarrow> Inl ReadPastEnd
        | Some w \<Rightarrow>
            exec_loop M (drop 4 rest) damage spawnIndex dir
              (s\<lparr>val := fadd (rnd M) (val s) (float_of_bits w)\<rparr>))
     else if op = OP_RAND then
       (case rd32 rest of None \<Rightarrow> Inl ReadPastEnd
        | Some w \<Rightarrow>
            exec_loop M (drop 4 rest) damage spawnIndex dir
              (s\<lparr>val := fadd (rnd M) (val s)
                          (fmul (rnd M) (RandFloat M (draws s)) (float_of_bits w)),
                 draws := Suc (draws s)\<rparr>))
     else if op = OP_DAMAGE then
       (case rd32 rest of None \<Rightarrow> Inl ReadPastEnd
        | Some w \<Rightarrow>
            exec_loop M (drop 4 rest) damage spawnIndex dir
              (s\<lparr>val := fadd (rnd M) (val s) (fmul (rnd M) damage (float_of_bits w))\<rparr>))
     else if op = OP_INDEX then
       (case rd32 rest of None \<Rightarrow> Inl ReadPastEnd
        | Some w \<Rightarrow>
            exec_loop M (drop 4 rest) damage spawnIndex dir
              (s\<lparr>val := fadd (rnd M) (val s)
                          (fmul (rnd M) (float_of_int32 M spawnIndex) (float_of_bits w))\<rparr>))
     else if op = OP_LOADP then
       (case rd64 rest of None \<Rightarrow> Inl ReadPastEnd
        | Some p \<Rightarrow> exec_loop M (drop 8 rest) damage spawnIndex dir (s\<lparr>ptr := p\<rparr>))
     else if op = OP_STOREP then
       (case rd16 rest of None \<Rightarrow> Inl ReadPastEnd
        | Some offset \<Rightarrow>
            exec_loop M (drop 2 rest) damage spawnIndex dir
              (s\<lparr>writes := writes s @ [WritePtr (unat offset) (ptr s)], ptr := 0\<rparr>))
     else if op = OP_DIR then
       (case rd16 rest of None \<Rightarrow> Inl ReadPastEnd
        | Some offset \<Rightarrow>
            exec_loop M (drop 2 rest) damage spawnIndex dir
              (s\<lparr>writes := writes s @ [WriteFloat3 (unat offset) dir]\<rparr>))
     else if op = OP_SAWTOOTH then
       (case rd32 rest of None \<Rightarrow> Inl ReadPastEnd
        | Some w \<Rightarrow>
            exec_loop M (drop 4 rest) damage spawnIndex dir
              (s\<lparr>val := fsub (rnd M) (val s)
                          (fmul (rnd M) (float_of_bits w)
                             (ffloor (fdiv (rnd M) (val s) (float_of_bits w))))\<rparr>))
     else if op = OP_DISCRETE then
       (case rd32 rest of None \<Rightarrow> Inl ReadPastEnd
        | Some w \<Rightarrow>
            exec_loop M (drop 4 rest) damage spawnIndex dir
              (s\<lparr>val := fmul (rnd M) (float_of_bits w)
                          (ffloor (SafeDivide (rnd M) (val s) (float_of_bits w)))\<rparr>))
     else if op = OP_SINE then
       (case rd32 rest of None \<Rightarrow> Inl ReadPastEnd
        | Some w \<Rightarrow>
            exec_loop M (drop 4 rest) damage spawnIndex dir
              (s\<lparr>val := fmul (rnd M) (float_of_bits w) (m_sin M (val s))\<rparr>))
     else if op = OP_YANK then
       (case rd32 rest of None \<Rightarrow> Inl ReadPastEnd
        | Some w \<Rightarrow>
            (case buffer_index w of Inl f \<Rightarrow> Inl f
             | Inr i \<Rightarrow>
                 exec_loop M (drop 4 rest) damage spawnIndex dir
                   (s\<lparr>buffer := (buffer s)(i := val s), val := Finite 0\<rparr>)))
     else if op = OP_MULTIPLY then
       (case rd32 rest of None \<Rightarrow> Inl ReadPastEnd
        | Some w \<Rightarrow>
            (case buffer_index w of Inl f \<Rightarrow> Inl f
             | Inr i \<Rightarrow>
                 exec_loop M (drop 4 rest) damage spawnIndex dir
                   (s\<lparr>val := fmul (rnd M) (val s) (buffer s i)\<rparr>)))
     else if op = OP_ADDBUFF then
       (case rd32 rest of None \<Rightarrow> Inl ReadPastEnd
        | Some w \<Rightarrow>
            (case buffer_index w of Inl f \<Rightarrow> Inl f
             | Inr i \<Rightarrow>
                 exec_loop M (drop 4 rest) damage spawnIndex dir
                   (s\<lparr>val := fadd (rnd M) (val s) (buffer s i)\<rparr>)))
     else if op = OP_POW then
       (case rd32 rest of None \<Rightarrow> Inl ReadPastEnd
        | Some w \<Rightarrow>
            exec_loop M (drop 4 rest) damage spawnIndex dir
              (s\<lparr>val := m_pow M (val s) (float_of_bits w)\<rparr>))
     else if op = OP_POWBUFF then
       (case rd32 rest of None \<Rightarrow> Inl ReadPastEnd
        | Some w \<Rightarrow>
            (case buffer_index w of Inl f \<Rightarrow> Inl f
             | Inr i \<Rightarrow>
                 exec_loop M (drop 4 rest) damage spawnIndex dir
                   (s\<lparr>val := m_pow M (val s) (buffer s i)\<rparr>)))
     else Inl (AssertFailed op))"

text \<open>\<^verbatim>\<open>ExecuteExplosionCode(code, damage, instance, spawnIndex, dir)\<close>: the locals are
  initialised (\<^verbatim>\<open>val = 0.0f\<close>, \<^verbatim>\<open>ptr = NULL\<close>) and the loop runs. \<open>n\<close> is the number
  of random draws made before the call; the instance is the list of stores of the result.\<close>

definition ExecuteExplosionCode ::
    "machine \<Rightarrow> byte list \<Rightarrow> float \<Rightarrow> 32 word \<Rightarrow> float3 \<Rightarrow> nat \<Rightarrow> fault + xstate" where
  "ExecuteExplosionCode M bytes damage spawnIndex dir n =
     exec_loop M bytes damage spawnIndex dir
       \<lparr>val = Finite 0, ptr = 0, buffer = buffer0 M, draws = n, writes = [], after_store = []\<rparr>"

subsection \<open>The cache of compiled definitions\<close>

text \<open>
  Modelled from the spec: the spawn flags and the three reserved identifiers are
  enumerators of \<^verbatim>\<open>ExplosionGenerator.h\<close>, which is not among the sources. Spec, section
  3: the flags are the bits of a mask; section 6: "three reserved values exist
  out-of-band". They are taken as six different bits and as the three largest values of
  \<^verbatim>\<open>unsigned int\<close>.
\<close>

definition SPW_WATER :: "32 word" where [simp]: "SPW_WATER = 1"
definition SPW_GROUND :: "32 word" where [simp]: "SPW_GROUND = 2"
definition SPW_AIR :: "32 word" where [simp]: "SPW_AIR = 4"
definition SPW_UNDERWATER :: "32 word" where [simp]: "SPW_UNDERWATER = 8"
definition SPW_UNIT :: "32 word" where [simp]: "SPW_UNIT = 16"
definition SPW_NO_UNIT :: "32 word" where [simp]: "SPW_NO_UNIT = 32"

definition EXPLOSION_ID_INVALID :: "32 word" where "EXPLOSION_ID_INVALID = 0xFFFFFFFF"
definition EXPLOSION_ID_STANDARD :: "32 word" where "EXPLOSION_ID_STANDARD = 0xFFFFFFFE"
definition EXPLOSION_ID_SPAWNER :: "32 word" where "EXPLOSION_ID_SPAWNER = 0xFFFFFFFD"

text \<open>The six booleans that \<^verbatim>\<open>GetFlagsFromTable\<close> reads from a Lua table
  (\<^verbatim>\<open>GetBool(key, false)\<close>).\<close>

record flag_table =
  t_ground :: bool
  t_water :: bool
  t_air :: bool
  t_underwater :: bool
  t_unit :: bool
  t_nounit :: bool

definition GetFlagsFromTable :: "flag_table \<Rightarrow> 32 word" where
  "GetFlagsFromTable t =
     (let flags = 0;
          flags = (if t_ground t then flags OR SPW_GROUND else flags);
          flags = (if t_water t then flags OR SPW_WATER else flags);
          flags = (if t_air t then flags OR SPW_AIR else flags);
          flags = (if t_underwater t then flags OR SPW_UNDERWATER else flags);
          flags = (if t_unit t then flags OR SPW_UNIT else flags);
          flags = (if t_nounit t then flags OR SPW_NO_UNIT else flags)
      in flags)"

definition GetFlagsFromHeight :: "float \<Rightarrow> float \<Rightarrow> 32 word" where
  "GetFlagsFromHeight height altitude =
     (if fless (Finite 0) height \<and> fle (Finite 20) altitude then SPW_AIR
      else if fless (Finite 0) height \<and> fle (Finite (- 1)) altitude then SPW_GROUND
      else if fless (Finite (- 5)) height \<and> fle (Finite (- 1)) altitude then SPW_WATER
      else if fle height (Finite (- 5)) \<and> fle (Finite (- 1)) altitude then SPW_UNDERWATER
      else 0)"

text \<open>A reflected projectile class, as \<^verbatim>\<open>Load\<close> uses it: the \<^verbatim>\<open>CF_Synced\<close> bit of the
  class, and \<^verbatim>\<open>FindMember\<close>, which gives the offset, the type and the \<^verbatim>\<open>CM_Config\<close>
  bit of a member.\<close>

record proj_class =
  className :: string
  CF_Synced :: bool
  FindMember :: "string \<Rightarrow> (32 word \<times> itype \<times> bool) option"

record ProjectileSpawnInfo =
  projectileClass :: proj_class
  psi_code :: "byte list"
  psi_count :: "32 word"
  psi_flags :: "32 word"

record GroundFlashInfo =
  flashSize :: float
  flashAlpha :: float
  circleGrowth :: float
  circleAlpha :: float
  ttl :: "32 word"
  gf_flags :: "32 word"
  color :: float3

record CEGData =
  projectileSpawn :: "ProjectileSpawnInfo list"
  groundFlash :: GroundFlashInfo
  useDefaultExplosions :: bool

text \<open>
  Modelled from the spec: the default constructor of \<^verbatim>\<open>GroundFlashInfo\<close> is in the
  header. Spec, section 3, "Ground-Flash Descriptor: a flat record of numeric visual
  parameters"; \<^verbatim>\<open>Load\<close> fills it when \<^verbatim>\<open>ttl > 0\<close>, and all members are zero otherwise.
\<close>

definition GroundFlashInfo0 :: GroundFlashInfo where
  "GroundFlashInfo0 =
     \<lparr>flashSize = Finite 0, flashAlpha = Finite 0, circleGrowth = Finite 0,
      circleAlpha = Finite 0, ttl = 0, gf_flags = 0, color = (Finite 0, Finite 0, Finite 0)\<rparr>"

text \<open>
  The Lua table of one definition, as \<^verbatim>\<open>Load\<close> reads it: the keys of \<^verbatim>\<open>GetKeys\<close> in
  their order, each with its sub-table (\<open>None\<close> when \<^verbatim>\<open>IsValid()\<close> is false); the
  \<^verbatim>\<open>groundflash\<close> sub-table with the defaults of the getters applied; and
  \<^verbatim>\<open>useDefaultExplosions\<close>. The properties of a spawn are in the order of the
  \<^verbatim>\<open>std::map\<close> that \<^verbatim>\<open>GetMap\<close> fills.
\<close>

record spawn_table =
  t_class :: "string option"
  t_flags :: flag_table
  t_count :: "32 word"
  t_properties :: "(string \<times> string) list"

record gnd_table =
  g_ttl :: "32 word"
  g_circleAlpha :: float
  g_flashSize :: float
  g_flashAlpha :: float
  g_circleGrowth :: float
  g_color :: float3
  g_flags :: flag_table

record exp_table =
  t_spawns :: "(string \<times> spawn_table option) list"
  t_groundflash :: gnd_table
  t_useDefaultExplosions :: bool

text \<open>The handler: the externals of the compiler, the explosion tables by tag (\<open>None\<close>
  when the root is \<^verbatim>\<open>NULL\<close> or the sub-table is not valid), the aliases of the projectile
  classes, and \<^verbatim>\<open>creg::System::GetClass\<close> (\<open>None\<close> for \<^verbatim>\<open>NULL\<close>).\<close>

record handler =
  ext :: externs
  explTable :: "string \<Rightarrow> exp_table option"
  aliases :: "string \<Rightarrow> string option"
  creg_GetClass :: "string \<Rightarrow> proj_class option"

text \<open>What can end a call other than its return: an exception, or undefined behaviour
  (a \<^verbatim>\<open>NULL\<close> class, a vector index out of range, a fault of the interpreter).\<close>

datatype abort = Thrown perror | NullClass string | VectorIndex nat | Fault fault

text \<open>\<^verbatim>\<open>ClassAliasList::GetClass\<close>: the aliases are followed until a name has none; a
  cycle of aliases never ends.\<close>

partial_function (option) resolve_alias :: "(string \<Rightarrow> string option) \<Rightarrow> string \<Rightarrow> string option" where
  "resolve_alias al n = (case al n of None \<Rightarrow> Some n | Some n' \<Rightarrow> resolve_alias al n')"

declare resolve_alias.simps [code]

definition GetClass :: "handler \<Rightarrow> string \<Rightarrow> proj_class option option" where
  "GetClass H name = map_option (creg_GetClass H) (resolve_alias (aliases H) name)"

text \<open>\<^verbatim>\<open>std::map<std::string, unsigned int>\<close>: the entries in the order of the keys, which
  is the order of iteration. \<open>str_less\<close> is \<^verbatim>\<open>operator<\<close> of \<^verbatim>\<open>std::string\<close>.\<close>

fun str_less :: "string \<Rightarrow> string \<Rightarrow> bool" where
  "str_less [] [] = False"
| "str_less [] (y # ys) = True"
| "str_less (x # xs) [] = False"
| "str_less (x # xs) (y # ys) =
     ((of_char x :: nat) < of_char y \<or> (x = y \<and> str_less xs ys))"

type_synonym id_map = "(string \<times> 32 word) list"

fun map_insert :: "string \<Rightarrow> 32 word \<Rightarrow> id_map \<Rightarrow> id_map" where
  "map_insert k v [] = [(k, v)]"
| "map_insert k v ((k', v') # m) =
     (if k = k' then (k, v) # m
      else if str_less k k' then (k, v) # (k', v') # m
      else (k', v') # map_insert k v m)"

definition map_erase :: "string \<Rightarrow> id_map \<Rightarrow> id_map" where
  "map_erase k m = filter (\<lambda>e. fst e \<noteq> k) m"

definition map_find :: "id_map \<Rightarrow> string \<Rightarrow> 32 word option" where
  "map_find m k = map_of m k"

text \<open>The members of \<^verbatim>\<open>CCustomExplosionGenerator\<close>.\<close>

record generator =
  explosionIDs :: id_map
  explosionData :: "CEGData list"
  cegSpawnExplGens :: "64 word list"

text \<open>The loop of \<^verbatim>\<open>Load\<close> over the properties of one spawn.\<close>

fun props_loop ::
    "handler \<Rightarrow> proj_class \<Rightarrow> (string \<times> string) list \<Rightarrow> pstate \<Rightarrow> (perror + pstate) option" where
  "props_loop H cls [] st = Some (Inr st)"
| "props_loop H cls ((name, script) # props) st =
     (case FindMember cls name of
        Some (offset, type, CM_Config) \<Rightarrow>
          if CM_Config then
            (case ParseExplosionCode (ext H) offset type script st of
               None \<Rightarrow> None
             | Some (Inl e) \<Rightarrow> Some (Inl e)
             | Some (Inr st') \<Rightarrow> props_loop H cls props st')
          else props_loop H cls props st
      | None \<Rightarrow> props_loop H cls props st)"

text \<open>The loop of \<^verbatim>\<open>Load\<close> over the spawns; \<open>acc\<close> is \<^verbatim>\<open>cegData.projectileSpawn\<close> and
  \<open>gens\<close> is \<^verbatim>\<open>spawnExplGens\<close>. No call of the \<^verbatim>\<open>try\<close> block throws here, so its
  \<^verbatim>\<open>catch\<close> is never entered: an unknown class is \<^verbatim>\<open>NULL\<close>, which the source then
  dereferences.\<close>

fun spawn_loop ::
    "handler \<Rightarrow> (string \<times> spawn_table option) list \<Rightarrow> ProjectileSpawnInfo list \<Rightarrow> 64 word list
      \<Rightarrow> (abort + ProjectileSpawnInfo list \<times> 64 word list) option" where
  "spawn_loop H [] acc gens = Some (Inr (acc, gens))"
| "spawn_loop H ((spawnName, tbl) # spawns) acc gens =
     (case tbl of
        None \<Rightarrow> spawn_loop H spawns acc gens
      | Some spawnTable \<Rightarrow>
          if spawnName = ''groundflash'' then spawn_loop H spawns acc gens
          else
            (let className = (case t_class spawnTable of None \<Rightarrow> spawnName | Some n \<Rightarrow> n) in
             case GetClass H className of
               None \<Rightarrow> None
             | Some None \<Rightarrow> Some (Inl (NullClass className))
             | Some (Some cls) \<Rightarrow>
                 if CF_Synced cls then spawn_loop H spawns acc gens
                 else
                   (case props_loop H cls (t_properties spawnTable)
                           \<lparr>code = [], spawnExplGens = gens\<rparr> of
                      None \<Rightarrow> None
                    | Some (Inl e) \<Rightarrow> Some (Inl (Thrown e))
                    | Some (Inr st) \<Rightarrow>
                        spawn_loop H spawns
                          (acc @ [\<lparr>projectileClass = cls, psi_code = code st @ [OP_END],
                                   psi_count = t_count spawnTable,
                                   psi_flags = GetFlagsFromTable (t_flags spawnTable)\<rparr>])
                          (spawnExplGens st))))"

definition load_groundFlash :: "gnd_table \<Rightarrow> GroundFlashInfo" where
  "load_groundFlash gndTable =
     (if 0 <s g_ttl gndTable then
        \<lparr>flashSize = g_flashSize gndTable, flashAlpha = g_flashAlpha gndTable,
         circleGrowth = g_circleGrowth gndTable, circleAlpha = g_circleAlpha gndTable,
         ttl = g_ttl gndTable,
         gf_flags = SPW_GROUND OR GetFlagsFromTable (g_flags gndTable),
         color = g_color gndTable\<rparr>
      else GroundFlashInfo0)"

text \<open>\<^verbatim>\<open>Load(handler, tag, luaCall)\<close>: the identifier returned and the generator afterwards.
  \<^verbatim>\<open>luaCall\<close> is not used by the source.\<close>

definition Load :: "handler \<Rightarrow> string \<Rightarrow> generator \<Rightarrow> (abort + 32 word \<times> generator) option" where
  "Load H tag g =
     (case map_find (explosionIDs g) tag of
        Some i \<Rightarrow> Some (Inr (i, g))
      | None \<Rightarrow>
          (case explTable H tag of
             None \<Rightarrow> Some (Inr (EXPLOSION_ID_INVALID, g))
           | Some expTable \<Rightarrow>
               (case spawn_loop H (t_spawns expTable) [] (cegSpawnExplGens g) of
                  None \<Rightarrow> None
                | Some (Inl e) \<Rightarrow> Some (Inl e)
                | Some (Inr (spawn, gens)) \<Rightarrow>
                    (let cegData = \<lparr>projectileSpawn = spawn,
                                    groundFlash = load_groundFlash (t_groundflash expTable),
                                    useDefaultExplosions = t_useDefaultExplosions expTable\<rparr>;
                         data = explosionData g @ [cegData];
                         i = of_nat (length data - 1)
                     in Some (Inr (i, g\<lparr>explosionData := data,
                                        explosionIDs := map_insert tag i (explosionIDs g),
                                        cegSpawnExplGens := gens\<rparr>))))))"

text \<open>\<^verbatim>\<open>Unload(handler)\<close> hands every generator of \<^verbatim>\<open>spawnExplGens\<close> to
  \<^verbatim>\<open>handler->UnloadGenerator\<close>; no member of this generator changes.\<close>

definition Unload :: "handler \<Rightarrow> generator \<Rightarrow> generator" where
  "Unload H g = g"

definition ClearCache :: "generator \<Rightarrow> generator" where
  "ClearCache g = g\<lparr>cegSpawnExplGens := [], explosionIDs := [], explosionData := []\<rparr>"

text \<open>The loop of \<^verbatim>\<open>Reload\<close> over \<^verbatim>\<open>oldExplosionIDs\<close>.\<close>

fun reload_loop :: "handler \<Rightarrow> id_map \<Rightarrow> generator \<Rightarrow> (abort + generator) option" where
  "reload_loop H [] g = Some (Inr g)"
| "reload_loop H ((tmpTag, i) # rest) g =
     (case Load H tmpTag g of
        None \<Rightarrow> None
      | Some (Inl e) \<Rightarrow> Some (Inl e)
      | Some (Inr (_, g')) \<Rightarrow> reload_loop H rest g')"

text \<open>"get rid of the old data": \<^verbatim>\<open>explosionIDs.erase(tag); explosionData[cegIndex] = tmpCEG;
  explosionData.pop_back()\<close>\<close>

definition remove_entry :: "string \<Rightarrow> 32 word \<Rightarrow> CEGData \<Rightarrow> generator \<Rightarrow> generator" where
  "remove_entry tag cegIndex tmpCEG g =
     g\<lparr>explosionIDs := map_erase tag (explosionIDs g),
       explosionData := butlast ((explosionData g)[unat cegIndex := tmpCEG])\<rparr>"

text \<open>
  \<^verbatim>\<open>Reload(handler, tag)\<close>. The source loads through the global \<^verbatim>\<open>explGenHandler\<close> and
  passes its parameter \<^verbatim>\<open>handler\<close> to \<^verbatim>\<open>Unload\<close> only; \<open>H\<close> stands for both. A vector
  index out of range is undefined behaviour in the source and \<open>VectorIndex\<close> here.
\<close>

definition Reload :: "handler \<Rightarrow> string \<Rightarrow> generator \<Rightarrow> (abort + generator) option" where
  "Reload H tag g =
     (if tag = [] then
        (let oldExplosionIDs = explosionIDs g in
         reload_loop H oldExplosionIDs (ClearCache (Unload H g)))
      else
        (case map_find (explosionIDs g) tag of
           None \<Rightarrow> Some (Inr g)
         | Some cegIndex \<Rightarrow>
             (let numCEGs = (of_nat (length (explosionData g)) :: 32 word);
                  data = explosionData g
              in if \<not> unat cegIndex < length data then Some (Inl (VectorIndex (unat cegIndex)))
                 else if \<not> unat (numCEGs - 1) < length data
                   then Some (Inl (VectorIndex (unat (numCEGs - 1))))
                 else
                  (let oldCEG = data ! unat cegIndex;
                       tmpCEG = data ! unat (numCEGs - 1);
                       g1 = remove_entry tag cegIndex tmpCEG g
                   in case Load H tag g1 of
                        None \<Rightarrow> None
                      | Some (Inl e) \<Rightarrow> Some (Inl e)
                      | Some (Inr (r, g2)) \<Rightarrow>
                          if r = EXPLOSION_ID_INVALID then
                            (let ids = map_insert tag cegIndex (explosionIDs g2);
                                 data2 = explosionData g2 @ [tmpCEG]
                             in if \<not> unat cegIndex < length data2
                                then Some (Inl (VectorIndex (unat cegIndex)))
                                else Some (Inr (g2\<lparr>explosionIDs := ids,
                                                   explosionData := data2[unat cegIndex := oldCEG]\<rparr>)))
                          else
                            (let ids = map_insert tag cegIndex (explosionIDs g2);
                                 data2 = explosionData g2
                             in if 1 < numCEGs then
                                  (if \<not> (unat cegIndex < length data2 \<and> unat (numCEGs - 1) < length data2)
                                   then Some (Inl (VectorIndex (unat (numCEGs - 1))))
                                   else
                                     (let data3 = data2[unat cegIndex := data2 ! unat (numCEGs - 1)];
                                          data4 = data3[unat (numCEGs - 1) := tmpCEG]
                                      in Some (Inr (g2\<lparr>explosionIDs := ids, explosionData := data4\<rparr>))))
                                else Some (Inr (g2\<lparr>explosionIDs := ids\<rparr>)))))))"

subsection \<open>\<^verbatim>\<open>CCustomExplosionGenerator::Explosion\<close>\<close>

text \<open>
  What \<^verbatim>\<open>Explosion\<close> reads from the rest of the engine: the machine of the interpreter,
  \<^verbatim>\<open>ground->GetHeightReal\<close>, \<^verbatim>\<open>projectileHandler->particleSaturation\<close>, and the number of
  random draws that \<^verbatim>\<open>CStdExplosionGenerator::Explosion\<close> makes (it returns \<^verbatim>\<open>true\<close> on every
  path; its particles are one event here).
\<close>

record world =
  mach :: machine
  GetHeightReal :: "float \<Rightarrow> float \<Rightarrow> float"
  particleSaturation :: float
  std_draws :: "float3 \<Rightarrow> float \<Rightarrow> float \<Rightarrow> float \<Rightarrow> nat"

text \<open>What an explosion creates: a projectile of a class, with the stores that the
  interpreter made into it, initialised at a position for an owner; a ground flash; the
  effects of the standard generator.\<close>

datatype event =
    Projectile string "raw_write list" float3 "64 word"
  | StandardGroundFlash float3 GroundFlashInfo
  | StdExplosion float3 float3 float float float

record outcome =
  ret :: bool
  events :: "event list"
  rng :: nat
  gen :: generator

text \<open>\<^verbatim>\<open>for (int c = 0; c < psi.count; c++)\<close>: \<open>c\<close> is the index, \<open>k\<close> the number of
  rounds left.\<close>

fun count_loop ::
    "world \<Rightarrow> ProjectileSpawnInfo \<Rightarrow> float3 \<Rightarrow> float3 \<Rightarrow> float \<Rightarrow> 64 word \<Rightarrow> nat \<Rightarrow> nat
      \<Rightarrow> nat \<Rightarrow> event list \<Rightarrow> abort + nat \<times> event list" where
  "count_loop W psi pos dir damage owner c 0 n evs = Inr (n, evs)"
| "count_loop W psi pos dir damage owner c (Suc k) n evs =
     (case ExecuteExplosionCode (mach W) (psi_code psi) damage (of_nat c) dir n of
        Inl f \<Rightarrow> Inl (Fault f)
      | Inr s \<Rightarrow>
          count_loop W psi pos dir damage owner (Suc c) k (draws s)
            (evs @ [Projectile (className (projectileClass psi)) (writes s) pos owner]))"

text \<open>\<^verbatim>\<open>for (int a = 0; a < spawnInfo.size(); a++)\<close>\<close>

fun spawnInfo_loop ::
    "world \<Rightarrow> ProjectileSpawnInfo list \<Rightarrow> 32 word \<Rightarrow> float3 \<Rightarrow> float3 \<Rightarrow> float \<Rightarrow> 64 word
      \<Rightarrow> nat \<Rightarrow> event list \<Rightarrow> abort + nat \<times> event list" where
  "spawnInfo_loop W [] flags pos dir damage owner n evs = Inr (n, evs)"
| "spawnInfo_loop W (psi # spawnInfo) flags pos dir damage owner n evs =
     (if psi_flags psi AND flags = 0 then
        spawnInfo_loop W spawnInfo flags pos dir damage owner n evs
      else if fless (Finite 1) (particleSaturation W) then
        spawnInfo_loop W spawnInfo flags pos dir damage owner n evs
      else
        (case count_loop W psi pos dir damage owner 0 (nat (sint (psi_count psi))) n evs of
           Inl e \<Rightarrow> Inl e
         | Inr (n', evs') \<Rightarrow> spawnInfo_loop W spawnInfo flags pos dir damage owner n' evs'))"

definition Explosion ::
    "world \<Rightarrow> generator \<Rightarrow> 32 word \<Rightarrow> float3 \<Rightarrow> float3 \<Rightarrow> float \<Rightarrow> float \<Rightarrow> float \<Rightarrow> 64 word
      \<Rightarrow> 64 word \<Rightarrow> nat \<Rightarrow> abort + outcome" where
  "Explosion W g explosionID pos dir damage radius gfxMod owner hit n =
     (if explosionID = EXPLOSION_ID_STANDARD then
        Inr \<lparr>ret = True, events = [StdExplosion pos dir damage radius gfxMod],
             rng = n + std_draws W pos damage radius gfxMod, gen = g\<rparr>
      else if explosionID = EXPLOSION_ID_INVALID then
        Inr \<lparr>ret = False, events = [], rng = n, gen = g\<rparr>
      else
        (let explosionID = (if explosionID = EXPLOSION_ID_SPAWNER
                            then of_nat (length (explosionData g)) - 1 else explosionID)
         in if unat explosionID \<ge> length (explosionData g) then
              Inr \<lparr>ret = False, events = [], rng = n, gen = g\<rparr>
            else
              (let groundHeight = GetHeightReal W (fst pos) (snd (snd pos));
                   altitude = fsub (rnd (mach W)) (fst (snd pos)) groundHeight;
                   flags = GetFlagsFromHeight (fst (snd pos)) altitude;
                   groundExplosion = (flags AND SPW_GROUND \<noteq> 0);
                   flags = (if hit \<noteq> 0 then flags OR SPW_UNIT else flags OR SPW_NO_UNIT);
                   cegData = explosionData g ! unat explosionID;
                   spawnInfo = projectileSpawn cegData;
                   groundFlash = groundFlash cegData
               in case spawnInfo_loop W spawnInfo flags pos dir damage owner n [] of
                    Inl e \<Rightarrow> Inl e
                  | Inr (n', evs) \<Rightarrow>
                      (let evs = (if groundExplosion \<and> 0 <s ttl groundFlash
                                     \<and> fless (Finite 1) (flashSize groundFlash)
                                  then evs @ [StandardGroundFlash pos groundFlash] else evs)
                       in if useDefaultExplosions cegData then
                            Inr \<lparr>ret = True,
                                 events = evs @ [StdExplosion pos dir damage radius gfxMod],
                                 rng = n' + std_draws W pos damage radius gfxMod, gen = g\<rparr>
                          else Inr \<lparr>ret = True, events = evs, rng = n', gen = g\<rparr>))))"

subsection \<open>Well-formed scalar expressions\<close>

text \<open>The opcodes that the tokenizer emits: each takes a 4-byte operand and stores nothing
  into the instance.\<close>

definition is_arith :: "byte \<Rightarrow> bool" where
  "is_arith op = (op = OP_ADD \<or> op = OP_RAND \<or> op = OP_DAMAGE \<or> op = OP_INDEX
     \<or> op = OP_SAWTOOTH \<or> op = OP_DISCRETE \<or> op = OP_SINE \<or> op = OP_POW
     \<or> op = OP_YANK \<or> op = OP_MULTIPLY \<or> op = OP_ADDBUFF \<or> op = OP_POWBUFF)"

definition is_register_op :: "byte \<Rightarrow> bool" where
  "is_register_op op = (op = OP_YANK \<or> op = OP_MULTIPLY \<or> op = OP_ADDBUFF \<or> op = OP_POWBUFF)"

text \<open>A stream that is a sequence of such instructions, 5 bytes each.\<close>

fun arith_chunks :: "byte list \<Rightarrow> bool" where
  "arith_chunks [] = True"
| "arith_chunks (op # b0 # b1 # b2 # b3 # rest) = (is_arith op \<and> arith_chunks rest)"
| "arith_chunks _ = False"

text \<open>Every register operand of such a stream is an index of \<^verbatim>\<open>buffer[16]\<close>.\<close>

fun regs_in_range :: "byte list \<Rightarrow> bool" where
  "regs_in_range (op # b0 # b1 # b2 # b3 # rest) =
     ((if is_register_op op
       then (case rd32 [b0, b1, b2, b3] of
               Some w \<Rightarrow> (case buffer_index w of Inr _ \<Rightarrow> True | Inl _ \<Rightarrow> False)
             | None \<Rightarrow> False)
       else True) \<and> regs_in_range rest)"
| "regs_in_range _ = True"

text \<open>
  A well-formed scalar expression, as a condition on the text alone (with libc's \<^verbatim>\<open>strtod\<close>
  and \<^verbatim>\<open>strtol\<close>): it is not the keyword; wherever a bare number can start (a digit,
  \<^verbatim>\<open>.\<close> or \<^verbatim>\<open>-\<close>) \<^verbatim>\<open>strtod\<close> reads at least one character; and the number after each
  register mnemonic (\<^verbatim>\<open>y\<close>, \<^verbatim>\<open>x\<close>, \<^verbatim>\<open>a\<close>, \<^verbatim>\<open>q\<close>), as the \<^verbatim>\<open>int\<close> that the compiler
  makes of it, is below 16.
\<close>

definition bare_number_start :: "char \<Rightarrow> bool" where
  "bare_number_start c = (isdigit c \<or> c = CHR ''.'' \<or> c = CHR ''-'')"

definition register_mnemonic :: "char \<Rightarrow> bool" where
  "register_mnemonic c = (c = CHR ''y'' \<or> c = CHR ''x'' \<or> c = CHR ''a'' \<or> c = CHR ''q'')"

definition strtod_progress :: "externs \<Rightarrow> string \<Rightarrow> bool" where
  "strtod_progress X script =
     list_all (\<lambda>q. if bare_number_start (script ! q)
                    then 0 < snd (strtod X (c_str_from script q)) else True)
       [0..<length script]"

definition registers_exist :: "string \<Rightarrow> bool" where
  "registers_exist script =
     list_all (\<lambda>q. if register_mnemonic (script ! q)
                    then sint (of_int (fst (strtol (c_str_from script (Suc q)))) :: 32 word) < 16
                    else True)
       [0..<length script]"

definition well_formed :: "externs \<Rightarrow> string \<Rightarrow> bool" where
  "well_formed X script =
     (substr script 0 (find_char script (CHR '';'') 0) \<noteq> ''dir'' \<and>
      strtod_progress X script \<and> registers_exist script)"

text \<open>The store that the \<^verbatim>\<open>switch (basicType->id)\<close> selects for a field, as a property of
  the store made: \<^verbatim>\<open>int\<close> and \<^verbatim>\<open>bool\<close> fields get a 4-byte integer, \<^verbatim>\<open>float\<close> fields a
  4-byte float, \<^verbatim>\<open>unsigned char\<close> fields one byte.\<close>

fun write_matches :: "basic_id \<Rightarrow> raw_write \<Rightarrow> bool" where
  "write_matches crInt (WriteInt _ _) = True"
| "write_matches crBool (WriteInt _ _) = True"
| "write_matches crFloat (WriteFloat _ _) = True"
| "write_matches crUChar (WriteUChar _ _) = True"
| "write_matches _ _ = False"

fun write_offset :: "raw_write \<Rightarrow> nat" where
  "write_offset (WriteInt a _) = a"
| "write_offset (WriteFloat a _) = a"
| "write_offset (WriteUChar a _) = a"
| "write_offset (WritePtr a _) = a"
| "write_offset (WriteFloat3 a _) = a"

text \<open>The keys of a \<^verbatim>\<open>std::map\<close> are strictly increasing.\<close>

fun map_ok :: "id_map \<Rightarrow> bool" where
  "map_ok [] = True"
| "map_ok [e] = True"
| "map_ok (e # e' # m) = (str_less (fst e) (fst e') \<and> map_ok (e' # m))"

subsection \<open>Example inputs\<close>

text \<open>
  An instance of \<^verbatim>\<open>strtod\<close> for the examples: it reads a run of decimal digits. It agrees
  with \<^verbatim>\<open>(float) strtod\<close> on a string whose number is such a run with a value below
  \<open>2 ^ 24\<close>, and consumes nothing where no number starts.
\<close>

fun bitlen :: "nat \<Rightarrow> nat" where
  "bitlen n = (if n = 0 then 0 else Suc (bitlen (n div 2)))"

definition float_bits_of_nat :: "nat \<Rightarrow> 32 word" where
  "float_bits_of_nat n =
     (if n = 0 then 0
      else let e = bitlen n - 1 in of_nat ((127 + e) * 2 ^ 23 + (n * 2 ^ (23 - e) - 2 ^ 23)))"

definition strtod_digits :: "string \<Rightarrow> 32 word \<times> nat" where
  "strtod_digits s = (case digits 0 s of (v, n) \<Rightarrow> (float_bits_of_nat (nat v), n))"

definition ex_X :: externs where
  "ex_X = \<lparr>strtod = strtod_digits, GetTexture = (\<lambda>_. 0), GetGroundFXTexture = (\<lambda>_. 0),
           LoadFromDefString = (\<lambda>_. 0), LoadGenerator = (\<lambda>_. Inr 0)\<rparr>"

text \<open>A machine with exact arithmetic, a constant random source and an empty buffer.\<close>

definition ex_M :: machine where
  "ex_M = \<lparr>rnd = Finite, m_sin = (\<lambda>x. x), m_pow = (\<lambda>x y. x), RandFloat = (\<lambda>_. Finite 0),
           buffer0 = (\<lambda>_. Finite 0)\<rparr>"

definition ex_st :: pstate where
  "ex_st = \<lparr>code = [], spawnExplGens = []\<rparr>"

text \<open>A class with three \<^verbatim>\<open>int\<close> members at offsets 0, 4 and 8.\<close>

definition ex_int3 :: itype where
  "ex_int3 = ObjectInstanceType
     (Class [(0, BasicType crInt), (4, BasicType crInt), (8, BasicType crInt)] None)"

text \<open>Definitions without spawns; they differ in \<^verbatim>\<open>useDefaultExplosions\<close> and in the ground
  flash.\<close>

definition ex_flags0 :: flag_table where
  "ex_flags0 = \<lparr>t_ground = False, t_water = False, t_air = False, t_underwater = False,
                t_unit = False, t_nounit = False\<rparr>"

definition ex_gnd0 :: gnd_table where
  "ex_gnd0 = \<lparr>g_ttl = 0, g_circleAlpha = Finite 0, g_flashSize = Finite 0,
              g_flashAlpha = Finite 0, g_circleGrowth = Finite 0,
              g_color = (Finite 1, Finite 1, Finite (4 / 5)), g_flags = ex_flags0\<rparr>"

definition ex_table :: "bool \<Rightarrow> exp_table" where
  "ex_table u = \<lparr>t_spawns = [], t_groundflash = ex_gnd0, t_useDefaultExplosions = u\<rparr>"

definition ex_data :: "bool \<Rightarrow> CEGData" where
  "ex_data u = \<lparr>projectileSpawn = [], groundFlash = GroundFlashInfo0, useDefaultExplosions = u\<rparr>"

text \<open>A handler whose tables define \<^verbatim>\<open>a\<close> and \<^verbatim>\<open>b\<close>; \<open>ua\<close> and \<open>ub\<close> are what the two
  tables hold (\<open>None\<close>: the table is not valid).\<close>

definition ex_H :: "bool option \<Rightarrow> bool option \<Rightarrow> handler" where
  "ex_H ua ub =
     \<lparr>ext = ex_X,
      explTable = (\<lambda>tag. if tag = ''a'' then map_option ex_table ua
                         else if tag = ''b'' then map_option ex_table ub else None),
      aliases = (\<lambda>_. None),
      creg_GetClass = (\<lambda>_. None)\<rparr>"

definition ex_gen :: "id_map \<Rightarrow> CEGData list \<Rightarrow> generator" where
  "ex_gen ids data = \<lparr>explosionIDs = ids, explosionData = data, cegSpawnExplGens = []\<rparr>"

definition ex_W :: world where
  "ex_W = \<lparr>mach = ex_M, GetHeightReal = (\<lambda>_ _. Finite 0), particleSaturation = Finite 0,
           std_draws = (\<lambda>_ _ _ _. 0)\<rparr>"

section \<open>Lemmas\<close>

subsection \<open>Operands are read back as they were written\<close>

lemma rd16_le16: "rd16 (le16 w @ rest) = Some w"
  unfolding le16_def
  by (simp, rule bit_word_eqI) (auto simp: bit_simps)

lemma rd32_le32: "rd32 (le32 w @ rest) = Some w"
  unfolding le32_def
  apply simp
  apply (rule bit_word_eqI)
  apply (auto simp: bit_simps)
  subgoal for n by (cases "n < 24") (auto simp: not_less)
  done

lemma length_le16: "length (le16 w) = 2"
  by (simp add: le16_def)

lemma length_le32: "length (le32 w) = 4"
  by (simp add: le32_def)

subsection \<open>What the tokenizer emits\<close>

text \<open>The loop of the tokenizer, one round at a time.\<close>

lemma tokenize_done: "\<not> p < length script \<Longrightarrow> tokenize X script p c = Some c"
  by (subst tokenize.simps) simp

lemma tokenize_step:
  "p < length script \<Longrightarrow> tokenize X script p c =
     (let ch = script ! p; p1 = p + 1 in
      if ch = CHR '' '' then tokenize X script p1 c
      else case mnemonic ch of
        None \<Rightarrow> tokenize X script p1 c
      | Some (opcode, useInt, back) \<Rightarrow>
          (let p2 = (if back then p1 - 1 else p1) in
           if p2 \<ge> length script then tokenize X script p2 c
           else if \<not> useInt then
             (case strtod X (c_str_from script p2) of
                (v, n) \<Rightarrow> tokenize X script (p2 + n) (c @ [opcode] @ le32 v))
           else
             (case strtol (c_str_from script p2) of
                (l, n) \<Rightarrow>
                  tokenize X script (p2 + n) (c @ [opcode] @ le32 (register_operand l)))))"
  by (subst tokenize.simps) simp

lemma mnemonic_is_arith: "mnemonic c = Some (opcode, useInt, back) \<Longrightarrow> is_arith opcode"
  by (auto simp: mnemonic_def is_arith_def split: if_splits)

lemma arith_chunks_append:
  "arith_chunks xs \<Longrightarrow> arith_chunks ys \<Longrightarrow> arith_chunks (xs @ ys)"
  by (induction xs rule: arith_chunks.induct) auto

lemma arith_chunks_instr: "is_arith opcode \<Longrightarrow> arith_chunks ([opcode] @ le32 v)"
  by (simp add: le32_def)

lemma tokenize_chunks:
  assumes "tokenize X script p c = Some r"
  shows "\<exists>ops. r = c @ ops \<and> arith_chunks ops"
proof (rule tokenize.raw_induct
    [where P = "\<lambda>X script p c r. \<exists>ops. r = c @ ops \<and> arith_chunks ops", OF _ assms], goal_cases)
  case (1 tok X script p c r)
  have ext: "\<exists>ops. r = c @ ops \<and> arith_chunks ops"
    if "tok X script p' (c @ [opcode] @ le32 v) = Some r" "is_arith opcode" for p' opcode v
  proof -
    from 1(1)[OF that(1)] obtain ops where "r = (c @ [opcode] @ le32 v) @ ops" "arith_chunks ops"
      by blast
    then have "r = c @ (([opcode] @ le32 v) @ ops)" "arith_chunks (([opcode] @ le32 v) @ ops)"
      using arith_chunks_append[OF arith_chunks_instr[OF that(2)]] by auto
    then show ?thesis by blast
  qed
  from 1(2) show ?case
    by (auto simp: Let_def split: if_splits option.splits prod.splits
             dest: 1(1) mnemonic_is_arith intro: ext)
qed

lemma mnemonic_back:
  "mnemonic c = Some (opcode, useInt, True) \<Longrightarrow>
     \<not> useInt \<and> (isdigit c \<or> c = CHR ''.'' \<or> c = CHR ''-'')"
  by (auto simp: mnemonic_def split: if_splits)

text \<open>The tokenizer returns on every script on which \<^verbatim>\<open>strtod\<close> consumes at least one
  character wherever a bare number starts.\<close>

lemma tokenize_returns:
  assumes progress: "\<And>q. q < length script \<Longrightarrow>
      isdigit (script ! q) \<or> script ! q = CHR ''.'' \<or> script ! q = CHR ''-'' \<Longrightarrow>
      0 < snd (strtod X (c_str_from script q))"
  shows "\<exists>r. tokenize X script p c = Some r"
proof (induction "length script - p" arbitrary: p c rule: less_induct)
  case less
  show ?case
  proof (cases "p < length script")
    case False
    then show ?thesis by (simp add: tokenize_done)
  next
    case True
    have IH: "\<exists>r. tokenize X script p' c' = Some r" if "p < p'" for p' c'
      using less[of p' c'] that True by simp
    show ?thesis
    proof (cases "script ! p = CHR '' ''")
      case sp: True
      with True IH[of "p + 1" c] show ?thesis by (simp add: tokenize_step)
    next
      case nsp: False
      show ?thesis
      proof (cases "mnemonic (script ! p)")
        case None
        with True nsp IH[of "p + 1" c] show ?thesis by (simp add: tokenize_step)
      next
        case (Some t)
        obtain opcode useInt stepback where t: "t = (opcode, useInt, stepback)" by (cases t)
        show ?thesis
        proof (cases stepback)
          case bk: True
          from Some t bk have "mnemonic (script ! p) = Some (opcode, useInt, True)" by simp
          from mnemonic_back[OF this]
          have ni: "\<not> useInt" and dg: "isdigit (script ! p) \<or> script ! p = CHR ''.'' \<or> script ! p = CHR ''-''"
            by simp_all
          obtain v n where sd: "strtod X (c_str_from script p) = (v, n)" by force
          with progress[OF True dg] have "0 < n" by simp
          with IH[of "p + n" "c @ [opcode] @ le32 v"] True nsp Some t bk ni sd
          show ?thesis by (simp add: tokenize_step)
        next
          case nb: False
          show ?thesis
          proof (cases "p + 1 \<ge> length script")
            case e: True
            with True nsp Some t nb show ?thesis
              by (simp add: tokenize_step tokenize_done)
          next
            case ne: False
            obtain v n where sd: "strtod X (c_str_from script (p + 1)) = (v, n)" by force
            obtain l m where sl: "strtol (c_str_from script (p + 1)) = (l, m)" by force
            from IH[of "p + 1 + n" "c @ [opcode] @ le32 v"]
                 IH[of "p + 1 + m" "c @ [opcode] @ le32 (register_operand l)"]
                 True nsp Some t nb ne sd sl
            show ?thesis by (simp add: tokenize_step)
          qed
        qed
      qed
    qed
  qed
qed

text \<open>It does not return on the script \<^verbatim>\<open>-\<close>, where \<^verbatim>\<open>strtod\<close> finds no number: \<open>p\<close> stays
  at 0 and \<^verbatim>\<open>ADD 0\<close> is appended without end.\<close>

lemma tokenize_minus_never_returns:
  assumes "snd (strtod X ''-'') = 0"
  shows "tokenize X ''-'' 0 c = None"
proof (rule ccontr)
  assume "tokenize X ''-'' 0 c \<noteq> None"
  then obtain r where r: "tokenize X ''-'' 0 c = Some r" by auto
  have "\<not> (snd (strtod X ''-'') = 0 \<and> script = ''-'' \<and> p = 0)"
    if "tokenize X script p c = Some r" for script p
  proof (rule tokenize.raw_induct
      [where P = "\<lambda>X script p c r. \<not> (snd (strtod X ''-'') = 0 \<and> script = ''-'' \<and> p = 0)", OF _ that], goal_cases)
    case (1 tok X script p c r)
    show ?case
    proof
      assume a: "snd (strtod X ''-'') = 0 \<and> script = ''-'' \<and> p = 0"
      then obtain v where sd: "strtod X ''-'' = (v, 0)" by (cases "strtod X ''-''") auto
      from 1(2) a sd have "tok X ''-'' 0 (c @ [OP_ADD] @ le32 v) = Some r"
        by (simp add: mnemonic_def isdigit_def c_str_from_def)
      from 1(1)[OF this] a show False by simp
    qed
  qed
  from this[OF r] assms show False by simp
qed

lemma strtod_progressD:
  "strtod_progress X script \<Longrightarrow> q < length script \<Longrightarrow>
     isdigit (script ! q) \<or> script ! q = CHR ''.'' \<or> script ! q = CHR ''-'' \<Longrightarrow>
     0 < snd (strtod X (c_str_from script q))"
  by (auto simp: strtod_progress_def list_all_iff bare_number_start_def split: if_splits)

lemma tokenize_returns_progress:
  "strtod_progress X script \<Longrightarrow> \<exists>r. tokenize X script p c = Some r"
  by (rule tokenize_returns) (rule strtod_progressD)

text \<open>On a script whose register operands are below 16, what the tokenizer emits only
  uses registers that exist.\<close>

lemma registers_existD:
  "registers_exist script \<Longrightarrow> q < length script \<Longrightarrow> register_mnemonic (script ! q) \<Longrightarrow>
     sint (of_int (fst (strtol (c_str_from script (Suc q)))) :: 32 word) < 16"
  by (auto simp: registers_exist_def list_all_iff split: if_splits)

lemma mnemonic_useInt:
  "mnemonic c = Some (opcode, True, bk) \<Longrightarrow> register_mnemonic c \<and> \<not> bk"
  by (auto simp: mnemonic_def register_mnemonic_def split: if_splits)

lemma mnemonic_not_useInt:
  "mnemonic c = Some (opcode, False, bk) \<Longrightarrow> \<not> is_register_op opcode"
  by (auto simp: mnemonic_def is_register_op_def split: if_splits)

lemma sint_small: "0 \<le> k \<Longrightarrow> k \<le> 16 \<Longrightarrow> sint (of_int k :: 32 word) = k"
  by (simp add: sint_sbintrunc' signed_take_bit_int_eq_self)

lemma register_operand_index:
  assumes "sint (of_int l :: 32 word) < 16"
  shows "\<exists>j. buffer_index (register_operand l) = Inr j"
proof -
  let ?k = "max 0 (min 16 (sint (of_int l :: 32 word)))"
  have "0 \<le> ?k" "?k < 16" using assms by simp_all
  then have "sint (of_int ?k :: 32 word) = ?k" by (simp add: sint_small)
  with \<open>0 \<le> ?k\<close> \<open>?k < 16\<close> show ?thesis
    by (simp add: buffer_index_def register_operand_def)
qed

lemma regs_in_range_instr:
  assumes "is_register_op opcode \<Longrightarrow> \<exists>j. buffer_index w = Inr j"
  shows "regs_in_range (([opcode] @ le32 w) @ ops) = regs_in_range ops"
proof -
  have "rd32 (le32 w @ []) = Some w" by (rule rd32_le32)
  then have "rd32 [ucast w, ucast (drop_bit 8 w), ucast (drop_bit 16 w), ucast (drop_bit 24 w)]
      = Some w"
    by (simp add: le32_def)
  with assms show ?thesis
    by (auto simp: le32_def simp del: rd32.simps)
qed

lemma tokenize_regs:
  assumes "tokenize X script p c = Some r"
  shows "registers_exist script \<longrightarrow>
           (\<exists>ops. r = c @ ops \<and> arith_chunks ops \<and> regs_in_range ops)"
proof (rule tokenize.raw_induct
    [where P = "\<lambda>X script p c r. registers_exist script \<longrightarrow>
           (\<exists>ops. r = c @ ops \<and> arith_chunks ops \<and> regs_in_range ops)", OF _ assms], goal_cases)
  case (1 tok X script p c r)
  show ?case
  proof (intro impI)
    assume re: "registers_exist script"
    have IH: "\<exists>ops. r = c' @ ops \<and> arith_chunks ops \<and> regs_in_range ops"
      if "tok X script p' c' = Some r" for p' c'
      using 1(1)[OF that] re by blast
    have ext: "\<exists>ops. r = c @ ops \<and> arith_chunks ops \<and> regs_in_range ops"
      if "tok X script p' (c @ [opcode] @ le32 w) = Some r" "is_arith opcode"
        "is_register_op opcode \<Longrightarrow> \<exists>j. buffer_index w = Inr j" for p' opcode w
    proof -
      from IH[OF that(1)] obtain ops where ops: "r = (c @ [opcode] @ le32 w) @ ops"
        "arith_chunks ops" "regs_in_range ops"
        by blast
      have "arith_chunks (([opcode] @ le32 w) @ ops)"
        using arith_chunks_append[OF arith_chunks_instr[OF that(2)] ops(2)] .
      moreover have "regs_in_range (([opcode] @ le32 w) @ ops)"
        using regs_in_range_instr[OF that(3)] ops(3) by simp
      moreover have "r = c @ (([opcode] @ le32 w) @ ops)" using ops(1) by simp
      ultimately show ?thesis by blast
    qed
    show "\<exists>ops. r = c @ ops \<and> arith_chunks ops \<and> regs_in_range ops"
    proof (cases "p < length script")
      case False
      with 1(2) have "r = c" by simp
      then show ?thesis by simp
    next
      case True
      show ?thesis
      proof (cases "script ! p = CHR '' ''")
        case sp: True
        with True 1(2) have "tok X script (p + 1) c = Some r" by simp
        from IH[OF this] show ?thesis .
      next
        case nsp: False
        show ?thesis
        proof (cases "mnemonic (script ! p)")
          case None
          with True nsp 1(2) have "tok X script (p + 1) c = Some r" by simp
          from IH[OF this] show ?thesis .
        next
          case (Some t)
          obtain opcode useInt bk where t: "t = (opcode, useInt, bk)" by (cases t)
          from Some t have mn: "mnemonic (script ! p) = Some (opcode, useInt, bk)" by simp
          have ar: "is_arith opcode" using mnemonic_is_arith[OF mn] .
          show ?thesis
          proof (cases useInt)
            case ui: True
            from mn ui have "mnemonic (script ! p) = Some (opcode, True, bk)" by simp
            from mnemonic_useInt[OF this]
            have rm: "register_mnemonic (script ! p)" and nb: "\<not> bk" by simp_all
            show ?thesis
            proof (cases "p + 1 \<ge> length script")
              case e: True
              with True nsp mn ui nb 1(2) have "tok X script (p + 1) c = Some r" by simp
              from IH[OF this] show ?thesis .
            next
              case ne: False
              obtain l m where sl: "strtol (c_str_from script (p + 1)) = (l, m)" by force
              from registers_existD[OF re True rm] sl
              have "sint (of_int l :: 32 word) < 16" by simp
              then have ix: "\<exists>j. buffer_index (register_operand l) = Inr j"
                by (rule register_operand_index)
              from True nsp mn ui nb ne sl 1(2)
              have "tok X script (p + 1 + m) (c @ [opcode] @ le32 (register_operand l)) = Some r"
                by simp
              from ext[OF this ar ix] show ?thesis .
            qed
          next
            case nui: False
            from mn nui have "mnemonic (script ! p) = Some (opcode, False, bk)" by simp
            from mnemonic_not_useInt[OF this] have nr: "\<not> is_register_op opcode" .
            let ?p2 = "if bk then p else p + 1"
            show ?thesis
            proof (cases "?p2 \<ge> length script")
              case e: True
              with True nsp mn nui 1(2) have "tok X script ?p2 c = Some r"
                by (simp split: if_splits)
              from IH[OF this] show ?thesis .
            next
              case ne: False
              obtain v n where sd: "strtod X (c_str_from script ?p2) = (v, n)" by force
              from True nsp mn nui ne sd 1(2)
              have "tok X script (?p2 + n) (c @ [opcode] @ le32 v) = Some r"
                by (simp split: if_splits)
              from ext[OF this ar] nr show ?thesis by simp
            qed
          qed
        qed
      qed
    qed
  qed
qed

subsection \<open>Executing what the tokenizer emits\<close>

lemma exec_arith_step:
  assumes "is_arith op"
    and "is_register_op op \<Longrightarrow>
      \<exists>j. buffer_index (ucast b0 OR push_bit 8 (ucast b1) OR push_bit 16 (ucast b2)
                          OR push_bit 24 (ucast b3)) = Inr j"
  shows "\<exists>s1. exec_loop M (op # b0 # b1 # b2 # b3 # rest) damage spawnIndex dir s
               = exec_loop M rest damage spawnIndex dir s1
             \<and> writes s1 = writes s \<and> after_store s1 = after_store s"
  apply (insert assms)
  apply (unfold is_arith_def is_register_op_def)
  apply (elim disjE)
  apply (clarsimp, rule exI, rule conjI, rule refl, simp)+
  done

lemma exec_arith_chunks:
  "arith_chunks ops \<Longrightarrow> regs_in_range ops \<Longrightarrow>
     \<exists>s1. exec_loop M (ops @ rest) damage spawnIndex dir s
            = exec_loop M rest damage spawnIndex dir s1
          \<and> writes s1 = writes s \<and> after_store s1 = after_store s"
proof (induction ops arbitrary: s rule: arith_chunks.induct)
  case 1
  show ?case by (intro exI[of _ s]) simp
next
  case (2 op b0 b1 b2 b3 ops)
  from 2(2) have a: "is_arith op" and ch: "arith_chunks ops" by simp_all
  from 2(3) have rg: "regs_in_range ops"
    and ri: "is_register_op op \<Longrightarrow>
      \<exists>j. buffer_index (ucast b0 OR push_bit 8 (ucast b1) OR push_bit 16 (ucast b2)
                          OR push_bit 24 (ucast b3)) = Inr j"
    by (auto split: if_splits sum.splits)
  from exec_arith_step[OF a ri, of M "ops @ rest" damage spawnIndex dir s]
  obtain s1 where s1: "exec_loop M (op # b0 # b1 # b2 # b3 # ops @ rest) damage spawnIndex dir s
               = exec_loop M (ops @ rest) damage spawnIndex dir s1"
     "writes s1 = writes s" "after_store s1 = after_store s"
    by blast
  from 2(1)[OF ch rg, of s1] obtain s2 where
     "exec_loop M (ops @ rest) damage spawnIndex dir s1 = exec_loop M rest damage spawnIndex dir s2"
     "writes s2 = writes s1" "after_store s2 = after_store s1"
    by blast
  with s1 show ?case by auto
qed simp_all

lemma exec_store:
  "legalType b \<Longrightarrow>
   \<exists>w. exec_loop M (store_op b @ le16 ofs @ [OP_END]) damage spawnIndex dir s
         = Inr (observe_store (s\<lparr>writes := writes s @ [w], val := Finite 0\<rparr>))
       \<and> write_matches b w \<and> write_offset w = unat ofs"
  by (cases b; simp add: legalType_def rd16_le16 length_le16;
      (rule exI, rule conjI, rule refl, simp))

subsection \<open>The identifier map and the vector of definitions\<close>

lemma str_less_irrefl: "\<not> str_less a a"
  by (induction a) auto

lemma str_less_trans: "str_less a b \<Longrightarrow> str_less b c \<Longrightarrow> str_less a c"
proof (induction a arbitrary: b c)
  case Nil
  then show ?case by (cases b; cases c) simp_all
next
  case (Cons x xs)
  from Cons.prems obtain y ys where b: "b = y # ys" by (cases b) simp_all
  from Cons.prems b obtain z zs where c: "c = z # zs" by (cases c) simp_all
  from Cons.prems b c
  have 1: "(of_char x :: nat) < of_char y \<or> (x = y \<and> str_less xs ys)"
    and 2: "(of_char y :: nat) < of_char z \<or> (y = z \<and> str_less ys zs)"
    by simp_all
  show ?case
  proof (cases "x = y \<and> y = z")
    case True
    with 1 2 have "str_less xs ys" "str_less ys zs" by auto
    from Cons.IH[OF this] True c show ?thesis by simp
  next
    case False
    with 1 2 have "(of_char x :: nat) < of_char z" by auto
    with c show ?thesis by simp
  qed
qed

lemma map_ok_tail: "map_ok (e # m) \<Longrightarrow> map_ok m"
  by (cases m) auto

lemma map_ok_keys_greater: "map_ok (e # m) \<Longrightarrow> e' \<in> set m \<Longrightarrow> str_less (fst e) (fst e')"
proof (induction m arbitrary: e)
  case Nil
  then show ?case by simp
next
  case (Cons a m)
  from Cons.prems(1) have 1: "str_less (fst e) (fst a)" and 2: "map_ok (a # m)" by simp_all
  show ?case
  proof (cases "e' = a")
    case True
    with 1 show ?thesis by simp
  next
    case False
    with Cons.prems(2) have "e' \<in> set m" by simp
    from Cons.IH[OF 2 this] 1 show ?thesis by (rule str_less_trans[rotated])
  qed
qed

lemma map_erase_absent: "\<forall>e \<in> set m. fst e \<noteq> tag \<Longrightarrow> map_erase tag m = m"
  by (induction m) (auto simp: map_erase_def)

lemma map_insert_erase:
  "map_ok m \<Longrightarrow> map_find m tag = Some i \<Longrightarrow> map_insert tag i (map_erase tag m) = m"
proof (induction m)
  case Nil
  then show ?case by (simp add: map_find_def)
next
  case (Cons e m)
  obtain k v where e: "e = (k, v)" by (cases e)
  have gt: "\<And>e'. e' \<in> set m \<Longrightarrow> str_less k (fst e')"
    using map_ok_keys_greater[OF Cons.prems(1)] e by simp
  show ?case
  proof (cases "k = tag")
    case True
    with Cons.prems(2) e have v: "v = i" by (simp add: map_find_def)
    have "\<forall>e' \<in> set m. fst e' \<noteq> tag"
    proof
      fix e' assume "e' \<in> set m"
      from gt[OF this] True show "fst e' \<noteq> tag" using str_less_irrefl[of tag] by auto
    qed
    then have er: "map_erase tag (e # m) = m"
      using map_erase_absent[of m tag] e True by (simp add: map_erase_def)
    show ?thesis
    proof (cases m)
      case Nil
      with er e True v show ?thesis by simp
    next
      case (Cons e2 m2)
      with gt[of e2] have lt: "str_less tag (fst e2)" using True by simp
      then have "tag \<noteq> fst e2" using str_less_irrefl[of tag] by auto
      with lt show ?thesis using er e True v Cons by (cases e2) simp
    qed
  next
    case False
    with Cons.prems(2) e have f: "map_find m tag = Some i" by (simp add: map_find_def)
    then obtain e' where "e' \<in> set m" "fst e' = tag"
      by (auto simp: map_find_def dest: map_of_SomeD)
    with gt[of e'] have "str_less k tag" by simp
    have nl: "\<not> str_less tag k"
    proof
      assume "str_less tag k"
      from str_less_trans[OF this \<open>str_less k tag\<close>] show False by (simp add: str_less_irrefl)
    qed
    have "map_erase tag (e # m) = e # map_erase tag m"
      using e False by (simp add: map_erase_def)
    moreover have "map_insert tag i (map_erase tag m) = m"
      using Cons.IH[OF map_ok_tail[OF Cons.prems(1)] f] .
    ultimately show ?thesis using e False nl by simp
  qed
qed

lemma swap_pop_push_restore:
  assumes "i < length xs"
  shows "(butlast (xs[i := xs ! (length xs - 1)]) @ [xs ! (length xs - 1)])[i := xs ! i] = xs"
proof (rule nth_equalityI)
  show "length ((butlast (xs[i := xs ! (length xs - 1)]) @ [xs ! (length xs - 1)])[i := xs ! i]) = length xs"
    using assms by simp
next
  fix j assume "j < length ((butlast (xs[i := xs ! (length xs - 1)]) @ [xs ! (length xs - 1)])[i := xs ! i])"
  then have j: "j < length xs" using assms by simp
  show "(butlast (xs[i := xs ! (length xs - 1)]) @ [xs ! (length xs - 1)])[i := xs ! i] ! j = xs ! j"
  proof (cases "j = i")
    case True
    with assms show ?thesis by simp
  next
    case False
    show ?thesis
    proof (cases "j = length xs - 1")
      case True
      with False assms j show ?thesis by (simp add: nth_append)
    next
      case False
      with \<open>j \<noteq> i\<close> assms j have "j < length xs - 1" by simp
      with \<open>j \<noteq> i\<close> assms j show ?thesis by (simp add: nth_append nth_butlast)
    qed
  qed
qed

lemma unat_numCEGs:
  assumes "0 < n" "n < 2 ^ 32"
  shows "unat ((of_nat n :: 32 word) - 1) = n - 1"
proof -
  have "(of_nat n :: 32 word) - 1 = of_nat (n - 1)" using assms(1) by (cases n) simp_all
  moreover have "unat (of_nat (n - 1) :: 32 word) = n - 1"
    using assms(2) by (simp add: unat_of_nat)
  ultimately show ?thesis by simp
qed

lemma Load_invalid_unchanged:
  assumes "Load H tag g = Some (Inr (EXPLOSION_ID_INVALID, g'))"
    and "length (explosionData g) < 2 ^ 32 - 1"
  shows "g' = g"
proof -
  have "(of_nat (length (explosionData g)) :: 32 word) \<noteq> 0xFFFFFFFF"
  proof
    assume "(of_nat (length (explosionData g)) :: 32 word) = 0xFFFFFFFF"
    then have "unat (of_nat (length (explosionData g)) :: 32 word) = unat (0xFFFFFFFF :: 32 word)"
      by simp
    with assms(2) show False by (simp add: unat_of_nat)
  qed
  with assms(1) show ?thesis
    by (auto simp: Load_def EXPLOSION_ID_INVALID_def Let_def
             split: option.splits sum.splits prod.splits)
qed

section \<open>Evaluation\<close>

text \<open>The equations that evaluate the compiler, the interpreter and the cache on the
  example inputs.\<close>

lemmas parse_eval = tokenize_done tokenize_step mnemonic_def isdigit_def isspace_def strtol_def
  c_str_from_def register_operand_def find_char_def substr_def str_length_def npos_def
  le16_def le32_def le64_def legalType_def

lemmas exec_eval = ExecuteExplosionCode_def observe_store_def buffer_index_def float_of_bits_def fsub_def
  SafeDivide_def inf_of_sign_def le16_def le32_def int_of_float_def

lemmas ex_eval = ex_X_def ex_M_def ex_st_def strtod_digits_def float_bits_of_nat_def ex_int3_def

lemmas cache_eval = Load_def Reload_def Unload_def ClearCache_def remove_entry_def map_find_def map_erase_def
  load_groundFlash_def ex_H_def ex_gen_def ex_table_def ex_data_def ex_gnd0_def
  EXPLOSION_ID_INVALID_def

section \<open>The claims\<close>

subsection \<open>C1: register operands\<close>

text \<open>
  Claim C1 says that the operand emitted for \<^verbatim>\<open>y\<close>, \<^verbatim>\<open>x\<close>, \<^verbatim>\<open>a\<close> and \<^verbatim>\<open>q\<close> lies in
  \<open>[0,16)\<close>, so that every register access stays inside \<^verbatim>\<open>float buffer[16]\<close>. The source
  clamps with \<^verbatim>\<open>std::min(16, ...)\<close>: the expression \<^verbatim>\<open>y16\<close> on a \<^verbatim>\<open>float\<close> field compiles
  to \<^verbatim>\<open>YANK 16\<close>, and executing it indexes \<^verbatim>\<open>buffer[16]\<close>, one past the end. This holds
  for every \<^verbatim>\<open>strtod\<close> and every machine.
\<close>

theorem C1_register_index_16:
  "ParseExplosionCode X 0 (BasicType crFloat) ''y16'' \<lparr>code = [], spawnExplGens = []\<rparr>
     = Some (Inr \<lparr>code = [OP_YANK] @ le32 16 @ [OP_STOREF] @ le16 0, spawnExplGens = []\<rparr>)
   \<and> ExecuteExplosionCode M ([OP_YANK] @ le32 16 @ [OP_STOREF] @ le16 0 @ [OP_END])
        damage spawnIndex dir n = Inl (BufferOverrun 16)"
  by (simp add: parse_eval exec_eval)

subsection \<open>C2: a zero operand of SAWTOOTH\<close>

text \<open>
  Claim C2 says that \<^verbatim>\<open>SAWTOOTH\<close> and \<^verbatim>\<open>DISCRETE\<close> with operand 0 never set \<open>val\<close> to NaN
  or an infinity. \<^verbatim>\<open>DISCRETE\<close> divides with \<^verbatim>\<open>SafeDivide\<close>; \<^verbatim>\<open>SAWTOOTH\<close> divides with
  \<^verbatim>\<open>/\<close>: \<open>val / 0\<close> is an infinity or a NaN, its floor times 0 is a NaN, and \<open>val\<close>
  minus a NaN is a NaN. So \<^verbatim>\<open>SAWTOOTH 0\<close> leaves \<open>val = NaN\<close> whatever \<open>val\<close> was.
\<close>

theorem C2_sawtooth_zero_operand:
  "exec_loop M ([OP_SAWTOOTH] @ le32 0 @ [OP_END]) damage spawnIndex dir s
     = Inr (s\<lparr>val := NaN\<rparr>)"
proof -
  have "fsub r v (fmul r (Finite 0) (ffloor (fdiv r v (Finite 0)))) = NaN" for r v
    by (cases v) (simp_all add: fsub_def inf_of_sign_def)
  then show ?thesis
    by (simp add: exec_eval)
qed

subsection \<open>C3: reloading every definition\<close>

text \<open>
  Claim C3 says that \<^verbatim>\<open>Reload\<close> with an empty tag leaves every tag with the identifier
  that \<^verbatim>\<open>Load\<close> first returned for it. The source clears the cache and loads the tags
  again in the order of the map, that is in the order of the tags: after \<^verbatim>\<open>b\<close> was loaded
  first (identifier 0) and \<^verbatim>\<open>a\<close> second (identifier 1), the reload gives \<^verbatim>\<open>a\<close> the
  identifier 0 and \<^verbatim>\<open>b\<close> the identifier 1.
\<close>

theorem C3_reload_all_renumbers:
  "Load (ex_H (Some False) (Some True)) ''b'' (ex_gen [] [])
     = Some (Inr (0, ex_gen [(''b'', 0)] [ex_data True]))
   \<and> Load (ex_H (Some False) (Some True)) ''a'' (ex_gen [(''b'', 0)] [ex_data True])
     = Some (Inr (1, ex_gen [(''a'', 1), (''b'', 0)] [ex_data True, ex_data False]))
   \<and> Reload (ex_H (Some False) (Some True)) []
        (ex_gen [(''a'', 1), (''b'', 0)] [ex_data True, ex_data False])
     = Some (Inr (ex_gen [(''a'', 0), (''b'', 1)] [ex_data False, ex_data True]))"
  by (simp add: cache_eval)

subsection \<open>C4: reloading one definition\<close>

text \<open>
  Claim C4 says that after a successful \<^verbatim>\<open>Reload\<close> of one tag its identifier maps to the
  freshly compiled data. When the tag owns the last slot of \<^verbatim>\<open>explosionData\<close> and there
  is more than one slot, the final \<^verbatim>\<open>explosionData[numCEGs - 1] = tmpCEG\<close> puts the old
  data back: with \<^verbatim>\<open>a\<close> and \<^verbatim>\<open>b\<close> loaded in this order, and the table of \<^verbatim>\<open>b\<close> changed
  so that it now compiles to other data, reloading \<^verbatim>\<open>b\<close> changes nothing.
\<close>

theorem C4_reload_last_keeps_old_data:
  "Load (ex_H (Some False) (Some True)) ''b'' (ex_gen [(''a'', 0)] [ex_data False])
     = Some (Inr (1, ex_gen [(''a'', 0), (''b'', 1)] [ex_data False, ex_data True]))
   \<and> Reload (ex_H (Some False) (Some False)) ''b''
        (ex_gen [(''a'', 0), (''b'', 1)] [ex_data False, ex_data True])
     = Some (Inr (ex_gen [(''a'', 0), (''b'', 1)] [ex_data False, ex_data True]))
   \<and> Load (ex_H (Some False) (Some False)) ''b'' (ex_gen [(''a'', 0)] [ex_data False])
     = Some (Inr (1, ex_gen [(''a'', 0), (''b'', 1)] [ex_data False, ex_data False]))
   \<and> ex_data False \<noteq> ex_data True"
  by (simp add: cache_eval)

subsection \<open>C5: a reload that fails\<close>

text \<open>
  Claim C5: when \<^verbatim>\<open>Reload\<close> of one cached tag fails, that is when its call of \<^verbatim>\<open>Load\<close>
  (made after the entry was removed) returns \<^verbatim>\<open>EXPLOSION_ID_INVALID\<close>, the generator is
  afterwards what it was before: the tag has its identifier and \<^verbatim>\<open>explosionData\<close> holds
  the same data in the same slots. The hypotheses are the invariants of the cache: the map
  is a \<^verbatim>\<open>std::map\<close> (increasing keys), the identifier of the tag is an index of the
  vector, and the vector has fewer than \<open>2 ^ 32\<close> entries (identifiers are \<^verbatim>\<open>unsigned int\<close>).
\<close>

theorem C5_reload_failure_rollback:
  assumes "tag \<noteq> []"
    and "map_ok (explosionIDs g)"
    and "map_find (explosionIDs g) tag = Some cegIndex"
    and "unat cegIndex < length (explosionData g)"
    and "length (explosionData g) < 2 ^ 32"
    and "Load H tag (remove_entry tag cegIndex (last (explosionData g)) g)
           = Some (Inr (EXPLOSION_ID_INVALID, g'))"
  shows "Reload H tag g = Some (Inr g)"
proof -
  let ?data = "explosionData g"
  let ?n = "length ?data"
  let ?tmp = "?data ! (?n - 1)"
  let ?g1 = "remove_entry tag cegIndex ?tmp g"
  from assms(4) have pos: "0 < ?n" by (cases "explosionData g") simp_all
  then have ne: "?data \<noteq> []" by simp
  have last: "last ?data = ?tmp" using ne by (rule last_conv_nth)
  have un: "unat ((of_nat ?n :: 32 word) - 1) = ?n - 1"
    using pos assms(5) by (rule unat_numCEGs)
  have len1: "length (explosionData ?g1) = ?n - 1"
    by (simp add: remove_entry_def)
  have ld: "Load H tag ?g1 = Some (Inr (EXPLOSION_ID_INVALID, g'))"
    using assms(6) last by simp
  have g': "g' = ?g1"
  proof (rule Load_invalid_unchanged[OF ld])
    show "length (explosionData ?g1) < 2 ^ 32 - 1" using len1 pos assms(5) by simp
  qed
  have ids: "map_insert tag cegIndex (explosionIDs ?g1) = explosionIDs g"
    using map_insert_erase[OF assms(2,3)] by (simp add: remove_entry_def)
  have dat: "(explosionData ?g1 @ [?tmp])[unat cegIndex := ?data ! unat cegIndex] = ?data"
    using swap_pop_push_restore[OF assms(4)] by (simp add: remove_entry_def)
  have fin: "?g1\<lparr>explosionIDs := explosionIDs g, explosionData := ?data\<rparr> = g"
    by (simp add: remove_entry_def)
  have ld1: "Load H tag ?g1 = Some (Inr (EXPLOSION_ID_INVALID, ?g1))"
    using ld g' by simp
  have res: "?g1\<lparr>explosionIDs := map_insert tag cegIndex (explosionIDs ?g1),
                 explosionData := (explosionData ?g1 @ [?tmp])[unat cegIndex := ?data ! unat cegIndex]\<rparr>
             = g"
    using ids dat fin by simp
  have lt: "unat cegIndex < length (explosionData ?g1 @ [?tmp])"
    using len1 pos assms(4) by simp
  show ?thesis
    unfolding Reload_def Let_def
    using assms(1,3,4) pos un ld1 res lt
    by simp
qed

theorem C5_reload_failure_rollback_witness:
  "''a'' \<noteq> []
   \<and> map_ok (explosionIDs (ex_gen [(''a'', 0), (''b'', 1)] [ex_data False, ex_data True]))
   \<and> map_find (explosionIDs (ex_gen [(''a'', 0), (''b'', 1)] [ex_data False, ex_data True])) ''a''
       = Some 0
   \<and> unat (0 :: 32 word)
       < length (explosionData (ex_gen [(''a'', 0), (''b'', 1)] [ex_data False, ex_data True]))
   \<and> length (explosionData (ex_gen [(''a'', 0), (''b'', 1)] [ex_data False, ex_data True]))
       < 2 ^ 32
   \<and> Load (ex_H None (Some True)) ''a''
        (remove_entry ''a'' 0
          (last (explosionData (ex_gen [(''a'', 0), (''b'', 1)] [ex_data False, ex_data True])))
          (ex_gen [(''a'', 0), (''b'', 1)] [ex_data False, ex_data True]))
       = Some (Inr (EXPLOSION_ID_INVALID, ex_gen [(''b'', 1)] [ex_data True]))
   \<and> Reload (ex_H None (Some True)) ''a''
        (ex_gen [(''a'', 0), (''b'', 1)] [ex_data False, ex_data True])
       = Some (Inr (ex_gen [(''a'', 0), (''b'', 1)] [ex_data False, ex_data True]))"
  using C5_reload_failure_rollback [of "''a''"
      "ex_gen [(''a'', 0), (''b'', 1)] [ex_data False, ex_data True]" 0
      "ex_H None (Some True)" "ex_gen [(''b'', 1)] [ex_data True]"]
  by (simp add: cache_eval)

subsection \<open>C6: one store for a scalar expression\<close>

text \<open>
  Claim C6 says that executing the stream compiled from a well-formed scalar expression
  makes exactly one store, at the byte offset of the field. It fails where the offset does
  not fit the 2-byte operand of the store instruction: a \<^verbatim>\<open>float\<close> field at offset 65544
  with the expression \<^verbatim>\<open>5\<close> is stored at offset 8. It also fails on \<^verbatim>\<open>y16\<close>, where the
  interpreter indexes \<^verbatim>\<open>buffer[16]\<close> and makes no store (the defect of C1).
\<close>

theorem C6_one_write_counterexample:
  "ParseExplosionCode ex_X 65544 (BasicType crFloat) ''5'' ex_st
     = Some (Inr \<lparr>code = [OP_ADD] @ le32 0x40A00000 @ [OP_STOREF] @ le16 8,
                  spawnExplGens = []\<rparr>)
   \<and> map_sum id writes
       (ExecuteExplosionCode ex_M ([OP_ADD] @ le32 0x40A00000 @ [OP_STOREF] @ le16 8 @ [OP_END])
         (Finite 0) 0 (Finite 0, Finite 0, Finite 0) 0)
     = Inr [WriteFloat 8 (Finite 5)]
   \<and> unat (65544 :: 32 word) \<noteq> 8
   \<and> ParseExplosionCode ex_X 8 (BasicType crFloat) ''y16'' ex_st
     = Some (Inr \<lparr>code = [OP_YANK] @ le32 16 @ [OP_STOREF] @ le16 8, spawnExplGens = []\<rparr>)
   \<and> ExecuteExplosionCode ex_M ([OP_YANK] @ le32 16 @ [OP_STOREF] @ le16 8 @ [OP_END])
         (Finite 0) 0 (Finite 0, Finite 0, Finite 0) 0
     = Inl (BufferOverrun 16)"
  by (simp add: parse_eval exec_eval ex_eval)

text \<open>
  Claim C6 as amended: for a field of type \<^verbatim>\<open>int\<close>, \<^verbatim>\<open>bool\<close>, \<^verbatim>\<open>float\<close> or
  \<^verbatim>\<open>unsigned char\<close> and a well-formed scalar expression (not the keyword, every bare number
  readable by \<^verbatim>\<open>strtod\<close>, every register operand below 16) the compiler returns a stream,
  and executing that stream (closed by \<^verbatim>\<open>OP_END\<close>, as \<^verbatim>\<open>Load\<close> does) returns after exactly
  one store into the instance, of the kind selected by the type of the field, at the offset
  of the field truncated to 16 bits, which is the offset of the field when that is below
  65536; the stream has one store instruction and \<open>val\<close> is 0 right after it.
\<close>

theorem C6_one_write:
  assumes "legalType b" and "well_formed X script"
  shows "\<exists>cd s w.
           ParseExplosionCode X offset (BasicType b) script \<lparr>code = [], spawnExplGens = gens\<rparr>
             = Some (Inr \<lparr>code = cd, spawnExplGens = gens\<rparr>)
         \<and> ExecuteExplosionCode M (cd @ [OP_END]) damage spawnIndex dir n = Inr s
         \<and> writes s = [w] \<and> write_matches b w
         \<and> write_offset w = unat (ucast offset :: 16 word)
         \<and> (unat offset < 65536 \<longrightarrow> write_offset w = unat offset)
         \<and> after_store s = [Finite 0]"
proof -
  from assms(2) have nd: "substr script 0 (find_char script (CHR '';'') 0) \<noteq> ''dir''"
    and pr: "strtod_progress X script" and re: "registers_exist script"
    by (simp_all add: well_formed_def)
  from tokenize_returns_progress[OF pr, of 0 "[]"]
  obtain ops where tk: "tokenize X script 0 [] = Some ops" by blast
  from tokenize_regs[OF tk] re have ch: "arith_chunks ops" and rg: "regs_in_range ops"
    by simp_all
  let ?cd = "ops @ store_op b @ le16 (ucast offset)"
  let ?s0 = "\<lparr>val = Finite 0, ptr = 0, buffer = buffer0 M, draws = n, writes = [],
              after_store = []\<rparr>"
  have p: "ParseExplosionCode X offset (BasicType b) script \<lparr>code = [], spawnExplGens = gens\<rparr>
             = Some (Inr \<lparr>code = ?cd, spawnExplGens = gens\<rparr>)"
    using assms(1) nd tk by simp
  from exec_arith_chunks[OF ch rg, of M "store_op b @ le16 (ucast offset) @ [OP_END]"
      damage spawnIndex dir ?s0]
  obtain s1 where s1: "exec_loop M (ops @ store_op b @ le16 (ucast offset) @ [OP_END])
         damage spawnIndex dir ?s0
       = exec_loop M (store_op b @ le16 (ucast offset) @ [OP_END]) damage spawnIndex dir s1"
    "writes s1 = []" "after_store s1 = []"
    by auto
  from exec_store[OF assms(1), of M "ucast offset" damage spawnIndex dir s1]
  obtain w where w: "exec_loop M (store_op b @ le16 (ucast offset) @ [OP_END])
           damage spawnIndex dir s1
         = Inr (observe_store (s1\<lparr>writes := writes s1 @ [w], val := Finite 0\<rparr>))"
    "write_matches b w" "write_offset w = unat (ucast offset :: 16 word)"
    by blast
  let ?s = "observe_store (s1\<lparr>writes := writes s1 @ [w], val := Finite 0\<rparr>)"
  have e: "ExecuteExplosionCode M (?cd @ [OP_END]) damage spawnIndex dir n = Inr ?s"
    using s1(1) w(1) by (simp add: ExecuteExplosionCode_def)
  have "writes ?s = [w]" "after_store ?s = [Finite 0]"
    using s1(2,3) by (simp_all add: observe_store_def)
  moreover have "unat offset < 65536 \<longrightarrow> write_offset w = unat offset"
    using w(3) by (simp add: unsigned_ucast_eq take_bit_nat_eq_self unsigned_take_bit_eq)
  ultimately show ?thesis using p e w(2,3) by blast
qed

theorem C6_one_write_witness:
  "legalType crFloat \<and> well_formed ex_X ''d2 y0 5 x0''
   \<and> (\<exists>cd s w.
         ParseExplosionCode ex_X 8 (BasicType crFloat) ''d2 y0 5 x0''
             \<lparr>code = [], spawnExplGens = []\<rparr>
           = Some (Inr \<lparr>code = cd, spawnExplGens = []\<rparr>)
         \<and> ExecuteExplosionCode ex_M (cd @ [OP_END]) (Finite 10) 0
             (Finite 0, Finite 0, Finite 0) 0 = Inr s
         \<and> writes s = [w] \<and> write_matches crFloat w
         \<and> write_offset w = unat (ucast (8 :: 32 word) :: 16 word)
         \<and> (unat (8 :: 32 word) < 65536 \<longrightarrow> write_offset w = unat (8 :: 32 word))
         \<and> after_store s = [Finite 0])"
proof -
  have 1: "legalType crFloat" by (simp add: legalType_def)
  have 2: "well_formed ex_X ''d2 y0 5 x0''"
    by (simp add: well_formed_def strtod_progress_def registers_exist_def
        bare_number_start_def register_mnemonic_def parse_eval ex_eval)
  from C6_one_write [OF 1 2, of 8 "[]" ex_M "Finite 10" 0 "(Finite 0, Finite 0, Finite 0)" 0] 1 2
  show ?thesis by blast
qed

subsection \<open>C7: the trailing store\<close>

text \<open>
  Claim C7 says that on every field of type \<^verbatim>\<open>int\<close>, \<^verbatim>\<open>bool\<close>, \<^verbatim>\<open>float\<close> or
  \<^verbatim>\<open>unsigned char\<close> the compiler appends one trailing store. It fails for the keyword: on a
  \<^verbatim>\<open>float\<close> field the expression \<^verbatim>\<open>dir\<close> compiles to \<^verbatim>\<open>OP_DIR\<close> and the offset, with no
  store instruction at all. It also fails where the tokenizer does not return: on
  \<^verbatim>\<open>-\<close> the compiler never returns.
\<close>

theorem C7_trailing_store_counterexample:
  "ParseExplosionCode ex_X 8 (BasicType crFloat) ''dir'' ex_st
     = Some (Inr \<lparr>code = [OP_DIR, 8, 0], spawnExplGens = []\<rparr>)
   \<and> set [OP_DIR, 8, 0] \<inter> {OP_STOREI, OP_STOREF, OP_STOREC} = {}
   \<and> ParseExplosionCode ex_X 8 (BasicType crFloat) ''-'' ex_st = None"
proof -
  have "snd (strtod ex_X ''-'') = 0" by (simp add: ex_eval isdigit_def)
  from tokenize_minus_never_returns[OF this, of "code ex_st"]
  have 1: "ParseExplosionCode ex_X 8 (BasicType crFloat) ''-'' ex_st = None"
    by (simp add: find_char_def substr_def npos_def legalType_def)
  have 2: "ParseExplosionCode ex_X 8 (BasicType crFloat) ''dir'' ex_st
     = Some (Inr \<lparr>code = [OP_DIR, 8, 0], spawnExplGens = []\<rparr>)"
    by (simp add: parse_eval ex_eval)
  have 3: "set [OP_DIR, 8, 0] \<inter> {OP_STOREI, OP_STOREF, OP_STOREC} = {}"
    by simp
  from 2 3 1 show ?thesis by (intro conjI)
qed

text \<open>
  Claim C7 as amended: on a field of type \<^verbatim>\<open>int\<close>, \<^verbatim>\<open>bool\<close>, \<^verbatim>\<open>float\<close> or
  \<^verbatim>\<open>unsigned char\<close> and for an expression that is not the keyword, the tokenizer returns
  whenever \<^verbatim>\<open>strtod\<close> reads at least one character wherever a bare number can start; and
  when the tokenizer has gone through the whole expression, the compiler returns the stream
  it had, followed by what the tokenizer emitted, which contains arithmetic instructions
  only, followed by one store instruction, \<^verbatim>\<open>OP_STOREF\<close> for \<^verbatim>\<open>float\<close>, \<^verbatim>\<open>OP_STOREC\<close> for
  \<^verbatim>\<open>unsigned char\<close>, \<^verbatim>\<open>OP_STOREI\<close> for \<^verbatim>\<open>int\<close> and \<^verbatim>\<open>bool\<close>, followed by the offset of the
  field as two bytes, from which the interpreter reads that offset (truncated to 16 bits)
  back.
\<close>

theorem C7_trailing_store:
  assumes "legalType b"
    and "substr script 0 (find_char script (CHR '';'') 0) \<noteq> ''dir''"
  shows "(strtod_progress X script \<longrightarrow> (\<exists>r. tokenize X script 0 (code st) = Some r))
         \<and> (tokenize X script 0 (code st) = Some code' \<longrightarrow>
              ParseExplosionCode X offset (BasicType b) script st
                = Some (Inr (st\<lparr>code := code' @ store_op b @ le16 (ucast offset)\<rparr>))
              \<and> (\<exists>ops. code' = code st @ ops \<and> arith_chunks ops))
         \<and> store_op b = [if b = crFloat then OP_STOREF
                          else if b = crUChar then OP_STOREC else OP_STOREI]
         \<and> \<not> is_arith OP_STOREI \<and> \<not> is_arith OP_STOREF \<and> \<not> is_arith OP_STOREC
         \<and> length (le16 (ucast offset)) = 2
         \<and> rd16 (le16 (ucast offset) @ rest) = Some (ucast offset)"
proof -
  have 0: "strtod_progress X script \<longrightarrow> (\<exists>r. tokenize X script 0 (code st) = Some r)"
    using tokenize_returns_progress by blast
  have 1: "tokenize X script 0 (code st) = Some code' \<longrightarrow>
           ParseExplosionCode X offset (BasicType b) script st
             = Some (Inr (st\<lparr>code := code' @ store_op b @ le16 (ucast offset)\<rparr>))
           \<and> (\<exists>ops. code' = code st @ ops \<and> arith_chunks ops)"
  proof
    assume tk: "tokenize X script 0 (code st) = Some code'"
    have "ParseExplosionCode X offset (BasicType b) script st
             = Some (Inr (st\<lparr>code := code' @ store_op b @ le16 (ucast offset)\<rparr>))"
      using assms tk by simp
    with tokenize_chunks[OF tk] show "ParseExplosionCode X offset (BasicType b) script st
             = Some (Inr (st\<lparr>code := code' @ store_op b @ le16 (ucast offset)\<rparr>))
           \<and> (\<exists>ops. code' = code st @ ops \<and> arith_chunks ops)"
      by blast
  qed
  have 3: "store_op b = [if b = crFloat then OP_STOREF
                          else if b = crUChar then OP_STOREC else OP_STOREI]"
    using assms(1) by (cases b) (simp_all add: legalType_def)
  have 4: "\<not> is_arith OP_STOREI \<and> \<not> is_arith OP_STOREF \<and> \<not> is_arith OP_STOREC"
    by (simp add: is_arith_def)
  have 5: "length (le16 (ucast offset)) = 2" by (rule length_le16)
  have 6: "rd16 (le16 (ucast offset) @ rest) = Some (ucast offset)" by (rule rd16_le16)
  from 0 1 3 4 5 6 show ?thesis by blast
qed

theorem C7_trailing_store_witness:
  "legalType crFloat
   \<and> substr ''d2r5'' 0 (find_char ''d2r5'' (CHR '';'') 0) \<noteq> ''dir''
   \<and> strtod_progress ex_X ''d2r5''
   \<and> tokenize ex_X ''d2r5'' 0 (code ex_st)
       = Some ([OP_DAMAGE] @ le32 0x40000000 @ [OP_RAND] @ le32 0x40A00000)
   \<and> ParseExplosionCode ex_X 8 (BasicType crFloat) ''d2r5'' ex_st
       = Some (Inr \<lparr>code = [OP_DAMAGE] @ le32 0x40000000 @ [OP_RAND] @ le32 0x40A00000
                            @ [OP_STOREF] @ le16 8, spawnExplGens = []\<rparr>)
   \<and> length (le16 (ucast (8 :: 32 word))) = 2
   \<and> rd16 (le16 (ucast (8 :: 32 word)) @ [OP_END]) = Some 8"
  using C7_trailing_store [of crFloat "''d2r5''" ex_X ex_st
      "[OP_DAMAGE] @ le32 0x40000000 @ [OP_RAND] @ le32 0x40A00000" 8 "[OP_END]"]
  by (simp add: strtod_progress_def bare_number_start_def parse_eval ex_eval)

subsection \<open>C8: the keyword \<^verbatim>\<open>dir\<close>\<close>

text \<open>
  Claim C8 says that for every field offset the \<^verbatim>\<open>OP_DIR\<close> instruction carries that offset
  and that executing it stores the direction at that offset. The operand of the instruction
  is a \<^verbatim>\<open>boost::uint16_t\<close>: for a field at offset 65544 the compiler emits \<^verbatim>\<open>DIR 8\<close>, and the
  direction is stored at offset 8.
\<close>

theorem C8_dir_keyword_counterexample:
  "ParseExplosionCode ex_X 65544 (BasicType crFloat) ''dir'' ex_st
     = Some (Inr \<lparr>code = [OP_DIR] @ le16 8, spawnExplGens = []\<rparr>)
   \<and> ExecuteExplosionCode ex_M ([OP_DIR] @ le16 8 @ [OP_END])
        (Finite 0) 0 (Finite 0, Finite 1, Finite 0) 0
     = Inr \<lparr>val = Finite 0, ptr = 0, buffer = buffer0 ex_M, draws = 0,
            writes = [WriteFloat3 8 (Finite 0, Finite 1, Finite 0)], after_store = []\<rparr>
   \<and> unat (65544 :: 32 word) \<noteq> 8"
  by (simp add: parse_eval exec_eval ex_eval)

text \<open>
  Claim C8 as amended: when the expression up to the first \<^verbatim>\<open>;\<close> is \<^verbatim>\<open>dir\<close>, the compiler
  emits, for every type of field and every offset, \<^verbatim>\<open>OP_DIR\<close> and the offset truncated to
  16 bits as two bytes, and nothing else; executing this instruction stores the direction
  vector at the truncated offset and changes nothing else of the state of the interpreter,
  \<open>val\<close> included. For every offset below 65536 the truncated offset is the offset of the
  field.
\<close>

theorem C8_dir_keyword:
  assumes "substr script 0 (find_char script (CHR '';'') 0) = ''dir''"
  shows "ParseExplosionCode X offset type script st
           = Some (Inr (st\<lparr>code := code st @ [OP_DIR] @ le16 (ucast offset)\<rparr>))
         \<and> exec_loop M ([OP_DIR] @ le16 (ucast offset) @ rest) damage spawnIndex dir s
           = exec_loop M rest damage spawnIndex dir
               (s\<lparr>writes := writes s @ [WriteFloat3 (unat (ucast offset :: 16 word)) dir]\<rparr>)
         \<and> (unat offset < 65536 \<longrightarrow> unat (ucast offset :: 16 word) = unat offset)"
proof -
  have 1: "ParseExplosionCode X offset type script st
           = Some (Inr (st\<lparr>code := code st @ [OP_DIR] @ le16 (ucast offset)\<rparr>))"
    using assms by simp
  have 2: "exec_loop M ([OP_DIR] @ le16 (ucast offset) @ rest) damage spawnIndex dir s
           = exec_loop M rest damage spawnIndex dir
               (s\<lparr>writes := writes s @ [WriteFloat3 (unat (ucast offset :: 16 word)) dir]\<rparr>)"
    by (simp add: rd16_le16 length_le16)
  have 3: "unat offset < 65536 \<longrightarrow> unat (ucast offset :: 16 word) = unat offset"
    by (simp add: unsigned_ucast_eq take_bit_nat_eq_self unsigned_take_bit_eq)
  from 1 2 3 show ?thesis by blast
qed

theorem C8_dir_keyword_witness:
  "substr ''dir;1'' 0 (find_char ''dir;1'' (CHR '';'') 0) = ''dir''
   \<and> ParseExplosionCode ex_X 12 (NamedType ''CColorMap*'') ''dir;1'' ex_st
       = Some (Inr \<lparr>code = [OP_DIR] @ le16 12, spawnExplGens = []\<rparr>)
   \<and> ExecuteExplosionCode ex_M ([OP_DIR] @ le16 12 @ [OP_END])
        (Finite 0) 0 (Finite 0, Finite 1, Finite 0) 0
       = Inr \<lparr>val = Finite 0, ptr = 0, buffer = buffer0 ex_M, draws = 0,
              writes = [WriteFloat3 12 (Finite 0, Finite 1, Finite 0)], after_store = []\<rparr>
   \<and> unat (ucast (12 :: 32 word) :: 16 word) = unat (12 :: 32 word)"
  using C8_dir_keyword [of "''dir;1''" ex_X 12 "NamedType ''CColorMap*''" ex_st ex_M "[OP_END]"
      "Finite 0" 0 "(Finite 0, Finite 1, Finite 0)"
      "\<lparr>val = Finite 0, ptr = 0, buffer = buffer0 ex_M, draws = 0, writes = [],
        after_store = []\<rparr>"]
  by (simp add: parse_eval exec_eval ex_eval)

subsection \<open>C9: an object with fewer sub-expressions than members\<close>

text \<open>
  Claim C9 says that the members beyond the end of the expression get no instruction.
  The loop over the members stops when \<open>start\<close> reaches the length of the script; but
  after the last sub-expression \<^verbatim>\<open>find\<close> returns \<^verbatim>\<open>npos\<close>, and \<^verbatim>\<open>start = end + 1\<close> wraps
  to 0. For a class with three \<^verbatim>\<open>int\<close> members and the expression \<^verbatim>\<open>1,2\<close> the third
  member is compiled from the start of the script again, and the program stores 1 into it.
\<close>

theorem C9_short_expression_wraps:
  "ParseExplosionCode ex_X 0 ex_int3 ''1,2'' ex_st
     = Some (Inr \<lparr>code = [OP_ADD] @ le32 0x3F800000 @ [OP_STOREI] @ le16 0
                        @ [OP_ADD] @ le32 0x40000000 @ [OP_STOREI] @ le16 4
                        @ [OP_ADD] @ le32 0x3F800000 @ [OP_STOREI] @ le16 8,
                  spawnExplGens = []\<rparr>)
   \<and> map_sum id writes
       (ExecuteExplosionCode ex_M
         ([OP_ADD] @ le32 0x3F800000 @ [OP_STOREI] @ le16 0
          @ [OP_ADD] @ le32 0x40000000 @ [OP_STOREI] @ le16 4
          @ [OP_ADD] @ le32 0x3F800000 @ [OP_STOREI] @ le16 8 @ [OP_END])
         (Finite 0) 0 (Finite 0, Finite 0, Finite 0) 0)
     = Inr [WriteInt 0 1, WriteInt 4 2, WriteInt 8 1]"
  by (simp add: parse_eval exec_eval ex_eval)

subsection \<open>C10: an identifier that is not in the cache\<close>

text \<open>
  Claim C10: \<^verbatim>\<open>Explosion\<close> with an identifier that is none of the three reserved values
  and is not below the number of cached definitions returns \<^verbatim>\<open>false\<close>, creates nothing,
  draws no random number and leaves the generator as it was.
\<close>

theorem C10_unknown_id:
  assumes "explosionID \<noteq> EXPLOSION_ID_INVALID" "explosionID \<noteq> EXPLOSION_ID_STANDARD"
    "explosionID \<noteq> EXPLOSION_ID_SPAWNER" "unat explosionID \<ge> length (explosionData g)"
  shows "Explosion W g explosionID pos dir damage radius gfxMod owner hit n
           = Inr \<lparr>ret = False, events = [], rng = n, gen = g\<rparr>"
  using assms by (simp add: Explosion_def)

theorem C10_unknown_id_witness:
  "(1 :: 32 word) \<noteq> EXPLOSION_ID_INVALID \<and> (1 :: 32 word) \<noteq> EXPLOSION_ID_STANDARD
   \<and> (1 :: 32 word) \<noteq> EXPLOSION_ID_SPAWNER
   \<and> unat (1 :: 32 word) \<ge> length (explosionData (ex_gen [(''a'', 0)] [ex_data False]))
   \<and> Explosion ex_W (ex_gen [(''a'', 0)] [ex_data False]) 1 (Finite 0, Finite 0, Finite 0)
       (Finite 0, Finite 1, Finite 0) (Finite 10) (Finite 5) (Finite 1) 0 0 0
     = Inr \<lparr>ret = False, events = [], rng = 0, gen = ex_gen [(''a'', 0)] [ex_data False]\<rparr>"
  using C10_unknown_id [of 1 "ex_gen [(''a'', 0)] [ex_data False]" ex_W
       "(Finite 0, Finite 0, Finite 0)" "(Finite 0, Finite 1, Finite 0)"
       "Finite 10" "Finite 5" "Finite 1" 0 0 0]
  by (simp add: ex_gen_def EXPLOSION_ID_INVALID_def EXPLOSION_ID_STANDARD_def
      EXPLOSION_ID_SPAWNER_def)

end
